theory Spec2Isabelle
  imports Complex_Main "HOL-Library.Word"
begin

section \<open>Strings and truthiness of the source language\<close>

text \<open>
  A JavaScript string is a sequence of UTF-16 code units. The titles and messages of this
  program are Chinese, so a code unit is a 16-bit word and not a byte; literals that
  are not ASCII are written as their code units.
\<close>

type_synonym code_unit = "16 word"
type_synonym jstring = "code_unit list"

definition ascii :: "string \<Rightarrow> jstring" where
  "ascii s = map of_char s"

text \<open>
  \<^verbatim>\<open>!x\<close> and \<^verbatim>\<open>a || b\<close> on a value that is a string or
  \<^verbatim>\<open>undefined\<close>/\<^verbatim>\<open>null\<close>: only a present, non-empty string is truthy.
  On a number or \<^verbatim>\<open>undefined\<close>: only a present number other than 0 is truthy.
\<close>

fun truthy :: "jstring option \<Rightarrow> bool" where
  "truthy None = False"
| "truthy (Some s) = (s \<noteq> [])"

fun truthyNum :: "int option \<Rightarrow> bool" where
  "truthyNum None = False"
| "truthyNum (Some n) = (n \<noteq> 0)"

definition orElse :: "jstring option \<Rightarrow> jstring option \<Rightarrow> jstring option" where
  "orElse a b = (if truthy a then a else b)"

definition orElseNum :: "int option \<Rightarrow> int option \<Rightarrow> int option" where
  "orElseNum a b = (if truthyNum a then a else b)"

text \<open>
  A number of JavaScript is a double. The numbers the component is given are whole numbers
  (\<open>int\<close>). The season number it computes comes from \<^verbatim>\<open>parseInt\<close>, whose
  result is the double nearest to the number read, ties going to the even significand, and
  \<^verbatim>\<open>Infinity\<close> beyond the range: so that number is a whole number that a double
  holds, or \<^verbatim>\<open>Infinity\<close>. \<^verbatim>\<open>NaN\<close> is only ever tested for truth and
  is \<open>None\<close>, as \<^verbatim>\<open>undefined\<close> is.
\<close>

datatype jsnumber = Finite int | Infinity

fun truthyJs :: "jsnumber option \<Rightarrow> bool" where
  "truthyJs None = False"
| "truthyJs (Some (Finite n)) = (n \<noteq> 0)"
| "truthyJs (Some Infinity) = True"

definition orElseJs :: "jsnumber option \<Rightarrow> jsnumber option \<Rightarrow> jsnumber option" where
  "orElseJs a b = (if truthyJs a then a else b)"

fun bitLength :: "nat \<Rightarrow> nat" where
  "bitLength n = (if n = 0 then 0 else Suc (bitLength (n div 2)))"

declare bitLength.simps [simp del]

definition toDouble :: "nat \<Rightarrow> jsnumber" where
  "toDouble n =
     (if n < 2 ^ 53 then Finite (int n)
      else
        (let e = bitLength n - 53;
             q = n div 2 ^ e;
             r = n mod 2 ^ e;
             half = 2 ^ (e - 1);
             rounded = (if half < r \<or> (r = half \<and> odd q) then q + 1 else q)
         in if 2 ^ 1024 \<le> rounded * 2 ^ e then Infinity
            else Finite (int (rounded * 2 ^ e))))"

section \<open>The playback resolver: \<^verbatim>\<open>GET /api/openlist/play/{token}\<close>\<close>

text \<open>
  The handler reads the path token, the session of the cookie and two query parameters,
  the environment's subscribe token and the configuration store, and makes one call
  to the file-listing client. The collaborators are not part of the handler, so they are
  given: \<open>cookieAuth\<close> is what \<^verbatim>\<open>getAuthInfoFromCookie(request)\<close> returns,
  and \<open>getConfig\<close> and \<open>getFile\<close> either throw (\<open>Inl\<close>, with the
  exception's message) or return; a reply of the client without its \<^verbatim>\<open>data\<close>
  member makes the handler's read of it throw and is among the \<open>Inl\<close> of
  \<open>getFile\<close>. \<^verbatim>\<open>NextResponse.json\<close> builds a response and does not throw.
  \<^verbatim>\<open>NextResponse.redirect(url)\<close> is the framework's and is given as well: it
  passes \<^verbatim>\<open>url\<close> through \<^verbatim>\<open>new URL\<close> and throws an error
  (\<open>Inl\<close>, its message) when the string is rejected, as a relative URL is; otherwise
  it sets the \<^verbatim>\<open>Location\<close> header to the serialised URL (\<open>Inr\<close>), which
  need not be the string it was given, with status 307. The call stands inside the
  \<^verbatim>\<open>try\<close>, so its error reaches the \<^verbatim>\<open>catch\<close>. The handler's
  result is the response together with the calls it made, in order; what it writes to the
  console is left out.
\<close>

record auth_info =
  username :: "jstring option"

record request =
  token :: jstring
  cookieAuth :: "auth_info option"
  folder :: "jstring option"
  fileName :: "jstring option"

record openlist_config =
  Enabled :: bool
  URL :: jstring
  Username :: jstring
  Password :: jstring
  RootPath :: "jstring option"

record app_config =
  OpenListConfig :: "openlist_config option"

record file_data =
  raw_url :: "jstring option"

record file_response =
  code :: int
  message :: jstring
  data :: file_data

datatype call =
    GetConfigCall
  | GetFileCall jstring jstring jstring jstring

record resolver_env =
  subscribeToken :: "jstring option"
  getConfig :: "jstring + app_config"
  getFile :: "jstring \<Rightarrow> jstring \<Rightarrow> jstring \<Rightarrow> jstring \<Rightarrow> jstring + file_response"
  redirect :: "jstring \<Rightarrow> jstring + jstring"

datatype response =
    JsonResponse nat jstring "jstring option"
  | RedirectResponse jstring

fun statusOf :: "response \<Rightarrow> nat" where
  "statusOf (JsonResponse st err details) = st"
| "statusOf (RedirectResponse location) = 307"

fun isRedirect :: "response \<Rightarrow> bool" where
  "isRedirect (JsonResponse st err details) = False"
| "isRedirect (RedirectResponse location) = True"

fun errorBody :: "response \<Rightarrow> jstring option" where
  "errorBody (JsonResponse st err details) = Some err"
| "errorBody (RedirectResponse location) = None"

text \<open>The messages of the handler's error bodies.\<close>

definition msgUnauthorized :: jstring where
  "msgUnauthorized = [0x672A, 0x6388, 0x6743]"

definition msgMissingParams :: jstring where
  "msgMissingParams = [0x7F3A, 0x5C11, 0x53C2, 0x6570]"

definition msgNotConfigured :: jstring where
  "msgNotConfigured = ascii ''OpenList '' @ [0x672A, 0x914D, 0x7F6E, 0x6216, 0x672A, 0x542F, 0x7528]"

definition msgPlayUrlFailed :: jstring where
  "msgPlayUrlFailed = [0x83B7, 0x53D6, 0x64AD, 0x653E, 0x94FE, 0x63A5, 0x5931, 0x8D25]"

definition msgFailed :: jstring where
  "msgFailed = [0x83B7, 0x53D6, 0x5931, 0x8D25]"

text \<open>
  The three string constants of the path construction:
  \<^verbatim>\<open>rootPath = openListConfig.RootPath || '/'\<close>,
  \<^verbatim>\<open>folderPath = `${rootPath}${rootPath.endsWith('/') ? '' : '/'}${folderName}`\<close>,
  \<^verbatim>\<open>filePath = `${folderPath}/${fileName}`\<close>.
\<close>

definition slash :: code_unit where
  "slash = 0x2F"

definition endsWithSlash :: "jstring \<Rightarrow> bool" where
  "endsWithSlash s = (s \<noteq> [] \<and> last s = slash)"

definition rootPath :: "jstring option \<Rightarrow> jstring" where
  "rootPath rp = (case orElse rp (Some [slash]) of Some r \<Rightarrow> r | None \<Rightarrow> [slash])"

definition folderPath :: "jstring option \<Rightarrow> jstring \<Rightarrow> jstring" where
  "folderPath rp folderName =
     rootPath rp @ (if endsWithSlash (rootPath rp) then [] else [slash]) @ folderName"

definition filePath :: "jstring option \<Rightarrow> jstring \<Rightarrow> jstring \<Rightarrow> jstring" where
  "filePath rp folderName fName = folderPath rp folderName @ [slash] @ fName"

definition hasValidToken :: "resolver_env \<Rightarrow> request \<Rightarrow> bool" where
  "hasValidToken env req =
     (case subscribeToken env of
        None \<Rightarrow> False
      | Some t \<Rightarrow> t \<noteq> [] \<and> token req = t)"

definition hasValidAuth :: "request \<Rightarrow> bool" where
  "hasValidAuth req =
     (case cookieAuth req of
        None \<Rightarrow> False
      | Some a \<Rightarrow> truthy (username a))"

definition configUsable :: "openlist_config \<Rightarrow> bool" where
  "configUsable oc = (Enabled oc \<and> URL oc \<noteq> [] \<and> Username oc \<noteq> [] \<and> Password oc \<noteq> [])"

text \<open>
  The handler. Every \<^verbatim>\<open>return\<close> of the source and the \<^verbatim>\<open>catch\<close>
  are the branches here, in the order of the source. Where the redirect is built the
  \<^verbatim>\<open>raw_url\<close> is known to be present, so the last \<open>None\<close> branch is never
  taken. The \<open>RedirectResponse\<close> carries the \<^verbatim>\<open>Location\<close> that the
  framework has set.
\<close>

definition GET :: "resolver_env \<Rightarrow> request \<Rightarrow> response \<times> call list" where
  "GET env req =
     (if \<not> hasValidToken env req \<and> \<not> hasValidAuth req then
        (JsonResponse 401 msgUnauthorized None, [])
      else
        (case (folder req, fileName req) of
           (Some folderName, Some fName) \<Rightarrow>
             if folderName = [] \<or> fName = [] then
               (JsonResponse 400 msgMissingParams None, [])
             else
               (case getConfig env of
                  Inl e \<Rightarrow> (JsonResponse 500 msgFailed (Some e), [GetConfigCall])
                | Inr config \<Rightarrow>
                    (case OpenListConfig config of
                       None \<Rightarrow> (JsonResponse 400 msgNotConfigured None, [GetConfigCall])
                     | Some oc \<Rightarrow>
                         if \<not> configUsable oc then
                           (JsonResponse 400 msgNotConfigured None, [GetConfigCall])
                         else
                           (let path = filePath (RootPath oc) folderName fName;
                                calls = [GetConfigCall,
                                         GetFileCall (URL oc) (Username oc) (Password oc) path]
                            in case getFile env (URL oc) (Username oc) (Password oc) path of
                                 Inl e \<Rightarrow> (JsonResponse 500 msgFailed (Some e), calls)
                               | Inr fileResponse \<Rightarrow>
                                   if code fileResponse \<noteq> 200
                                      \<or> \<not> truthy (raw_url (data fileResponse)) then
                                     (JsonResponse 500 msgPlayUrlFailed None, calls)
                                   else
                                     (case raw_url (data fileResponse) of
                                        Some url \<Rightarrow>
                                          (case redirect env url of
                                             Inl e \<Rightarrow> (JsonResponse 500 msgFailed (Some e), calls)
                                           | Inr location \<Rightarrow> (RedirectResponse location, calls))
                                      | None \<Rightarrow> (JsonResponse 500 msgPlayUrlFailed None, calls)))))
         | _ \<Rightarrow> (JsonResponse 400 msgMissingParams None, [])))"

definition isFileCall :: "call \<Rightarrow> bool" where
  "isFileCall c = (case c of GetFileCall u n p f \<Rightarrow> True | GetConfigCall \<Rightarrow> False)"

section \<open>The metadata cascade: \<^verbatim>\<open>fetchDetail\<close> of the detail panel\<close>

subsection \<open>Inputs, responses and the unified record\<close>

text \<open>
  The component's properties as \<^verbatim>\<open>fetchDetail\<close> reads them. A number that may
  be \<^verbatim>\<open>undefined\<close> is an \<open>int option\<close>; \<^verbatim>\<open>isBangumi\<close> is
  only tested for truth, so \<^verbatim>\<open>undefined\<close> is \<open>False\<close>; \<^verbatim>\<open>type\<close>
  defaults to \<^verbatim>\<open>'movie'\<close>.
\<close>

record cms_data =
  desc :: "jstring option"
  episodes :: "jstring list option"
  episodes_titles :: "jstring list option"

record DetailPanelProps =
  title :: jstring
  poster :: "jstring option"
  doubanId :: "int option"
  bangumiId :: "int option"
  isBangumi :: bool
  tmdbId :: "int option"
  type :: "jstring option"
  seasonNumber :: "int option"
  cmsData :: "cms_data option"
  sourceId :: "jstring option"
  source :: "jstring option"

definition typeOrDefault :: "DetailPanelProps \<Rightarrow> jstring" where
  "typeOrDefault p = (case type p of None \<Rightarrow> ascii ''movie'' | Some t \<Rightarrow> t)"

text \<open>
  The JSON bodies of the six endpoints, as records of the members the code reads; every
  member may be missing. Lists of objects of which only \<^verbatim>\<open>name\<close> is read
  (tags, genres, countries, languages, directors, actors) are lists of these names.
\<close>

record source_detail =
  sd_title :: "jstring option"
  sd_desc :: "jstring option"
  sd_episodes :: "jstring list option"
  sd_poster :: "jstring option"
  sd_year :: "jstring option"

record bgm_images =
  bgm_large :: "jstring option"

record bgm_rating =
  bgm_score :: real
  bgm_total :: int

record bangumi_subject =
  bgm_name_cn :: "jstring option"
  bgm_name :: "jstring option"
  bgm_date :: "jstring option"
  bgm_images :: "bgm_images option"
  bgm_rating :: "bgm_rating option"
  bgm_summary :: "jstring option"
  bgm_tags :: "jstring list option"
  bgm_eps :: "int option"

record db_pic =
  db_large :: "jstring option"
  db_normal :: "jstring option"

record rating =
  "value" :: real
  count :: int

record douban_detail =
  db_title :: "jstring option"
  db_original_title :: "jstring option"
  db_year :: "jstring option"
  db_pic :: "db_pic option"
  db_rating :: "rating option"
  db_intro :: "jstring option"
  db_genres :: "jstring list option"
  db_directors :: "jstring list option"
  db_actors :: "jstring list option"
  db_countries :: "jstring list option"
  db_languages :: "jstring list option"
  db_durations :: "jstring list option"
  db_episodes_count :: "int option"

record tmdb_result =
  tmdb_id :: "int option"
  tmdb_media_type :: "jstring option"

record tmdb_search =
  tmdb_results :: "tmdb_result list option"

record tmdb_detail =
  tmdb_title :: "jstring option"
  tmdb_name :: "jstring option"
  tmdb_original_title :: "jstring option"
  tmdb_original_name :: "jstring option"
  tmdb_release_date :: "jstring option"
  tmdb_first_air_date :: "jstring option"
  tmdb_poster_path :: "jstring option"
  tmdb_vote_average :: "real option"
  tmdb_vote_count :: int
  tmdb_overview :: "jstring option"
  tmdb_genres :: "jstring list option"
  tmdb_production_countries :: "jstring list option"
  tmdb_spoken_languages :: "jstring list option"
  tmdb_runtime :: "int option"
  tmdb_number_of_episodes :: "int option"
  tmdb_status :: "jstring option"
  tmdb_tagline :: "jstring option"
  tmdb_number_of_seasons :: "int option"

record tmdb_season =
  season_overview :: "jstring option"
  season_episodes :: "jstring list option"

text \<open>
  The interface \<^verbatim>\<open>DetailData\<close>. It declares \<^verbatim>\<open>title: string\<close>, but the
  value stored there is read from an untyped body and may be \<^verbatim>\<open>undefined\<close>, so
  the field is optional here as the others are.
\<close>

record DetailData =
  title :: "jstring option"
  originalTitle :: "jstring option"
  year :: "jstring option"
  poster :: "jstring option"
  rating :: "rating option"
  intro :: "jstring option"
  genres :: "jstring list option"
  directors :: "jstring list option"
  actors :: "jstring list option"
  countries :: "jstring list option"
  languages :: "jstring list option"
  duration :: "jstring option"
  episodesCount :: "int option"
  releaseDate :: "jstring option"
  status :: "jstring option"
  tagline :: "jstring option"
  seasons :: "int option"
  overview :: "jstring option"

definition noDetail :: DetailData where
  "noDetail =
     \<lparr>title = None, originalTitle = None, year = None, poster = None, rating = None,
      intro = None, genres = None, directors = None, actors = None, countries = None,
      languages = None, duration = None, episodesCount = None, releaseDate = None,
      status = None, tagline = None, seasons = None, overview = None\<rparr>"

text \<open>
  One \<^verbatim>\<open>await fetch(url)\<close> followed by \<^verbatim>\<open>await response.json()\<close>:
  the fetch rejects with an error (\<open>Rejected\<close>, its message), or it gives a response
  with its \<^verbatim>\<open>ok\<close> flag and a body; reading the body fails with an error
  (\<open>Inl\<close>) or gives the parsed record. The URL is kept as the endpoint and its
  arguments.

  A body that is the JSON value \<^verbatim>\<open>null\<close> parses, and the first read of a
  member of it throws. For the detail of the source, Bangumi, Douban and the TMDB search
  that read follows \<^verbatim>\<open>json()\<close> at once and is caught where a failed
  \<^verbatim>\<open>json()\<close> is, so such a body is among the \<open>Inl\<close>; the season's body is
  read with \<^verbatim>\<open>?.\<close>, so there \<^verbatim>\<open>null\<close> is as a body that was not
  read. The TMDB detail is different: between \<^verbatim>\<open>json()\<close> and the first read
  of a member the season is requested. Its body is therefore an option, \<open>None\<close> for
  \<^verbatim>\<open>null\<close>, and \<open>nullReadMessage\<close> is the message of the error that the
  read of the member throws (in the wording of V8).
\<close>

datatype 'a fetched =
    Rejected jstring
  | Responded bool "jstring + 'a"

datatype fetch_request =
    SourceDetailReq jstring jstring jstring
  | BangumiSubjectReq "int option"
  | DoubanDetailReq "int option"
  | TmdbSearchReq jstring
  | TmdbDetailReq "int option" jstring
  | TmdbSeasonsReq "int option" "jsnumber option"

record network =
  sourceDetailApi :: "jstring \<Rightarrow> jstring \<Rightarrow> jstring \<Rightarrow> source_detail fetched"
  bangumiApi :: "int option \<Rightarrow> bangumi_subject fetched"
  doubanApi :: "int option \<Rightarrow> douban_detail fetched"
  tmdbSearchApi :: "jstring \<Rightarrow> tmdb_search fetched"
  tmdbDetailApi :: "int option \<Rightarrow> jstring \<Rightarrow> tmdb_detail option fetched"
  tmdbSeasonsApi :: "int option \<Rightarrow> jsnumber option \<Rightarrow> tmdb_season fetched"

text \<open>The messages of the errors the cascade throws itself.\<close>

definition msgBangumiFailed :: jstring where
  "msgBangumiFailed =
     [0x83B7, 0x53D6] @ ascii ''Bangumi'' @ [0x8BE6, 0x60C5, 0x5931, 0x8D25]"

definition msgDoubanFailed :: jstring where
  "msgDoubanFailed = [0x83B7, 0x53D6, 0x8C46, 0x74E3, 0x8BE6, 0x60C5, 0x5931, 0x8D25]"

definition msgSearchFailed :: jstring where
  "msgSearchFailed = [0x641C, 0x7D22, 0x5931, 0x8D25]"

definition msgTmdbDetailFailed :: jstring where
  "msgTmdbDetailFailed =
     [0x83B7, 0x53D6] @ ascii ''TMDB'' @ [0x8BE6, 0x60C5, 0x5931, 0x8D25]"

definition msgNotFound :: jstring where
  "msgNotFound = [0x672A, 0x627E, 0x5230, 0x76F8, 0x5173, 0x5185, 0x5BB9]"

definition nullReadMessage :: "jstring \<Rightarrow> jstring" where
  "nullReadMessage member =
     ascii ''Cannot read properties of null (reading '' @ [0x27] @ member @ [0x27] @ ascii '')''"

definition msgMissingQuery :: jstring where
  "msgMissingQuery = [0x7F3A, 0x5C11, 0x5FC5, 0x8981, 0x7684, 0x67E5, 0x8BE2, 0x53C2, 0x6570]"

subsection \<open>Season markers in a title\<close>

text \<open>
  The three patterns of \<^verbatim>\<open>seasonPatterns\<close>, matched at the start of a string.
  A matcher gives the first capture group and the text after the match.

  In the first pattern the class of the group holds the ten numerals and the ASCII digits
  (\<^verbatim>\<open>\d\<close> without the unicode flag), and the closing character is in neither, so
  the greedy group is the longest run of class characters and no shorter run can match.
  In the second, a digit is not white space, so \<^verbatim>\<open>\s*\<close> takes the longest run
  as well. Without the unicode flag, \<^verbatim>\<open>/i\<close> lets an ASCII letter match only
  its two cases.
\<close>

definition isDigit :: "code_unit \<Rightarrow> bool" where
  "isDigit c = (0x30 \<le> c \<and> c \<le> 0x39)"

definition chineseNumerals :: "code_unit list" where
  "chineseNumerals =
     [0x4E00, 0x4E8C, 0x4E09, 0x56DB, 0x4E94, 0x516D, 0x4E03, 0x516B, 0x4E5D, 0x5341]"

definition isSeasonNumeral :: "code_unit \<Rightarrow> bool" where
  "isSeasonNumeral c = (c \<in> set chineseNumerals \<or> isDigit c)"

definition isSpace :: "code_unit \<Rightarrow> bool" where
  "isSpace c =
     (c \<in> set [0x9, 0xA, 0xB, 0xC, 0xD, 0x20, 0xA0, 0x1680, 0x2028, 0x2029, 0x202F,
                0x205F, 0x3000, 0xFEFF]
      \<or> (0x2000 \<le> c \<and> c \<le> 0x200A))"

definition lowerAscii :: "code_unit \<Rightarrow> code_unit" where
  "lowerAscii c = (if 0x41 \<le> c \<and> c \<le> 0x5A then c + 0x20 else c)"

definition startsWithIgnoreCase :: "jstring \<Rightarrow> jstring \<Rightarrow> bool" where
  "startsWithIgnoreCase word s =
     (length word \<le> length s \<and> map lowerAscii (take (length word) s) = map lowerAscii word)"

type_synonym pattern = "jstring \<Rightarrow> (jstring \<times> jstring) option"

definition chineseSeasonPattern :: pattern where
  "chineseSeasonPattern s =
     (case s of
        [] \<Rightarrow> None
      | c # rest \<Rightarrow>
          if c = 0x7B2C then
            (case dropWhile isSeasonNumeral rest of
               [] \<Rightarrow> None
             | e # post \<Rightarrow>
                 if takeWhile isSeasonNumeral rest \<noteq> [] \<and> (e = 0x5B63 \<or> e = 0x90E8)
                 then Some (takeWhile isSeasonNumeral rest, post)
                 else None)
          else None)"

definition seasonWordPattern :: pattern where
  "seasonWordPattern s =
     (if startsWithIgnoreCase (ascii ''Season'') s then
        (let rest = dropWhile isSpace (drop 6 s) in
         if takeWhile isDigit rest \<noteq> []
         then Some (takeWhile isDigit rest, dropWhile isDigit rest)
         else None)
      else None)"

definition seasonLetterPattern :: pattern where
  "seasonLetterPattern s =
     (if startsWithIgnoreCase (ascii ''S'') s then
        (let rest = drop 1 s in
         if takeWhile isDigit rest \<noteq> []
         then Some (takeWhile isDigit rest, dropWhile isDigit rest)
         else None)
      else None)"

definition seasonPatterns :: "pattern list" where
  "seasonPatterns = [chineseSeasonPattern, seasonWordPattern, seasonLetterPattern]"

text \<open>
  \<^verbatim>\<open>title.match(pattern)\<close> finds the leftmost match: the text before it, the
  group and the text after it. \<^verbatim>\<open>title.replace(pattern, '')\<close> removes that same
  match. Every pattern needs at least one character, so the empty string has no match.
\<close>

fun matchFirst :: "pattern \<Rightarrow> jstring \<Rightarrow> (jstring \<times> jstring \<times> jstring) option" where
  "matchFirst pat [] = None"
| "matchFirst pat (c # cs) =
     (case pat (c # cs) of
        Some (g, post) \<Rightarrow> Some ([], g, post)
      | None \<Rightarrow>
          (case matchFirst pat cs of
             None \<Rightarrow> None
           | Some (pre, g, post) \<Rightarrow> Some (c # pre, g, post)))"

definition trim :: "jstring \<Rightarrow> jstring" where
  "trim s = rev (dropWhile isSpace (rev (dropWhile isSpace s)))"

text \<open>
  \<^verbatim>\<open>chineseNumbers[seasonStr] || parseInt(seasonStr) || undefined\<close>. The table
  is keyed by the whole group. \<^verbatim>\<open>parseInt\<close> is applied to a group of numerals and
  digits only, which has no white space, sign or radix prefix: it reads the leading digits
  and is \<^verbatim>\<open>NaN\<close> (falsy, here \<open>None\<close>) when there are none; its value is the
  double of the number read, which is that number below \<open>2^53\<close> and a rounded one or
  \<^verbatim>\<open>Infinity\<close> above. (Past twenty digits the standard allows an engine to read
  the later digits as zeros; the engines round the whole number, as is done here.)
\<close>

definition chineseNumbers :: "jstring \<rightharpoonup> int" where
  "chineseNumbers = map_of (zip (map (\<lambda>c. [c]) chineseNumerals) [1, 2, 3, 4, 5, 6, 7, 8, 9, 10])"

definition digitValue :: "code_unit \<Rightarrow> nat" where
  "digitValue c = unat (c - 0x30)"

definition decimalValue :: "jstring \<Rightarrow> nat" where
  "decimalValue ds = foldl (\<lambda>acc c. 10 * acc + digitValue c) 0 ds"

definition parseInt :: "jstring \<Rightarrow> jsnumber option" where
  "parseInt s =
     (if takeWhile isDigit s = [] then None
      else Some (toDouble (decimalValue (takeWhile isDigit s))))"

definition seasonOfGroup :: "jstring \<Rightarrow> jsnumber option" where
  "seasonOfGroup seasonStr =
     (let n = orElseJs (map_option Finite (chineseNumbers seasonStr)) (parseInt seasonStr)
      in if truthyJs n then n else None)"

text \<open>The loop over the patterns stops at the first one that matches.\<close>

fun firstPattern :: "pattern list \<Rightarrow> jstring \<Rightarrow> (jstring \<times> jstring \<times> jstring) option" where
  "firstPattern [] t = None"
| "firstPattern (pat # pats) t =
     (case matchFirst pat t of
        Some m \<Rightarrow> Some m
      | None \<Rightarrow> firstPattern pats t)"

text \<open>
  The result is the pair of \<^verbatim>\<open>searchTitle\<close> and
  \<^verbatim>\<open>extractedSeasonNumber\<close> after the loop.
\<close>

definition stripSeason :: "jstring \<Rightarrow> int option \<Rightarrow> jstring \<times> jsnumber option" where
  "stripSeason t seasonNo =
     (case firstPattern seasonPatterns t of
        None \<Rightarrow> (t, map_option Finite seasonNo)
      | Some (pre, seasonStr, post) \<Rightarrow>
          (trim (pre @ post),
           if \<not> truthyNum seasonNo then seasonOfGroup seasonStr
           else map_option Finite seasonNo))"

definition searchTitle :: "DetailPanelProps \<Rightarrow> jstring" where
  "searchTitle p = fst (stripSeason (DetailPanelProps.title p) (seasonNumber p))"

definition extractedSeasonNumber :: "DetailPanelProps \<Rightarrow> jsnumber option" where
  "extractedSeasonNumber p = snd (stripSeason (DetailPanelProps.title p) (seasonNumber p))"

subsection \<open>The unified record of each branch\<close>

text \<open>The object literals passed to \<^verbatim>\<open>setDetailData\<close>, one per branch.\<close>

definition lengthOf :: "jstring list option \<Rightarrow> int option" where
  "lengthOf xs = map_option (\<lambda>l. int (length l)) xs"

definition fromCms :: "DetailPanelProps \<Rightarrow> cms_data \<Rightarrow> DetailData" where
  "fromCms p cms =
     noDetail
       \<lparr>title := Some (DetailPanelProps.title p),
        intro := desc cms,
        episodesCount := lengthOf (episodes cms),
        poster := DetailPanelProps.poster p\<rparr>"

definition fromSourceDetail :: "DetailPanelProps \<Rightarrow> cms_data \<Rightarrow> source_detail \<Rightarrow> DetailData" where
  "fromSourceDetail p cms d =
     noDetail
       \<lparr>title := orElse (sd_title d) (Some (DetailPanelProps.title p)),
        intro := orElse (sd_desc d) (Some []),
        episodesCount := orElseNum (lengthOf (sd_episodes d)) (lengthOf (episodes cms)),
        poster := orElse (sd_poster d) (DetailPanelProps.poster p),
        year := sd_year d\<rparr>"

definition fromBangumi :: "DetailPanelProps \<Rightarrow> bangumi_subject \<Rightarrow> DetailData" where
  "fromBangumi p d =
     noDetail
       \<lparr>title := orElse (bgm_name_cn d) (bgm_name d),
        originalTitle := bgm_name d,
        year := (if truthy (bgm_date d) then map_option (take 4) (bgm_date d) else None),
        poster := orElse (case bgm_images d of None \<Rightarrow> None | Some i \<Rightarrow> bgm_large i)
                    (DetailPanelProps.poster p),
        rating := map_option (\<lambda>r. \<lparr>value = bgm_score r, count = bgm_total r\<rparr>) (bgm_rating d),
        intro := bgm_summary d,
        genres := map_option (take 5) (bgm_tags d),
        episodesCount := bgm_eps d,
        releaseDate := bgm_date d\<rparr>"

definition fromDouban :: "DetailPanelProps \<Rightarrow> douban_detail \<Rightarrow> DetailData" where
  "fromDouban p d =
     noDetail
       \<lparr>title := db_title d,
        originalTitle := db_original_title d,
        year := db_year d,
        poster := orElse (case db_pic d of None \<Rightarrow> None | Some i \<Rightarrow> db_large i)
                    (orElse (case db_pic d of None \<Rightarrow> None | Some i \<Rightarrow> db_normal i)
                       (DetailPanelProps.poster p)),
        rating := db_rating d,
        intro := db_intro d,
        genres := db_genres d,
        directors := db_directors d,
        actors := db_actors d,
        countries := db_countries d,
        languages := db_languages d,
        duration := (case db_durations d of Some (x # xs) \<Rightarrow> Some x | _ \<Rightarrow> None),
        episodesCount := db_episodes_count d\<rparr>"

text \<open>
  The decimal digits of a number, for \<^verbatim>\<open>`${detailResult.runtime}...`\<close>: what
  JavaScript prints for a whole number below \<open>10^21\<close>.
\<close>

fun digitsOf :: "nat \<Rightarrow> jstring" where
  "digitsOf n =
     (if n < 10 then [of_nat (48 + n)]
      else digitsOf (n div 10) @ [of_nat (48 + n mod 10)])"

declare digitsOf.simps [simp del]

definition numberToString :: "int \<Rightarrow> jstring" where
  "numberToString i = (if i < 0 then ascii ''-'' @ digitsOf (nat (- i)) else digitsOf (nat i))"

definition posterBase :: jstring where
  "posterBase = ascii ''https://image.tmdb.org/t/p/w500''"

definition minutes :: jstring where
  "minutes = [0x5206, 0x949F]"

definition fromTmdb ::
  "DetailPanelProps \<Rightarrow> jstring \<Rightarrow> tmdb_detail \<Rightarrow> tmdb_season option \<Rightarrow> DetailData" where
  "fromTmdb p mediaType d seasonData =
     (let movie = (mediaType = ascii ''movie'') in
      noDetail
        \<lparr>title := (if movie then tmdb_title d else tmdb_name d),
         originalTitle := (if movie then tmdb_original_title d else tmdb_original_name d),
         year := (if movie then map_option (take 4) (tmdb_release_date d)
                  else map_option (take 4) (tmdb_first_air_date d)),
         poster := (case tmdb_poster_path d of
                      Some path \<Rightarrow> if path \<noteq> [] then Some (posterBase @ path)
                                   else DetailPanelProps.poster p
                    | None \<Rightarrow> DetailPanelProps.poster p),
         rating := (case tmdb_vote_average d of
                      Some v \<Rightarrow> if v \<noteq> 0 then Some \<lparr>value = v, count = tmdb_vote_count d\<rparr>
                                else None
                    | None \<Rightarrow> None),
         intro := orElse (case seasonData of None \<Rightarrow> None | Some sd \<Rightarrow> season_overview sd)
                    (tmdb_overview d),
         genres := tmdb_genres d,
         countries := tmdb_production_countries d,
         languages := tmdb_spoken_languages d,
         duration := (if truthyNum (tmdb_runtime d)
                      then map_option (\<lambda>r. numberToString r @ minutes) (tmdb_runtime d)
                      else None),
         episodesCount := orElseNum
                            (case seasonData of None \<Rightarrow> None | Some sd \<Rightarrow> lengthOf (season_episodes sd))
                            (tmdb_number_of_episodes d),
         releaseDate := (if movie then tmdb_release_date d else tmdb_first_air_date d),
         status := tmdb_status d,
         tagline := tmdb_tagline d,
         seasons := tmdb_number_of_seasons d,
         overview := tmdb_overview d\<rparr>)"

subsection \<open>The cascade\<close>

text \<open>
  Each part of the \<^verbatim>\<open>try\<close> block gives its outcome and the requests it sent, in
  order. \<open>Inl\<close> is an error thrown to the outer \<^verbatim>\<open>catch\<close>, with its message;
  \<open>Inr\<close> is the record passed to \<^verbatim>\<open>setDetailData\<close> before
  \<^verbatim>\<open>return\<close>.

  The two steps on \<^verbatim>\<open>cmsData\<close> return \<open>Some\<close> record, or \<open>None\<close> when
  control goes on to the branches on the ids. The inner \<^verbatim>\<open>try\<close> of the second
  step catches the rejected fetch and the failed read of the body; a response that is not
  \<^verbatim>\<open>ok\<close> skips the \<^verbatim>\<open>if\<close>.
\<close>

definition cmsSteps :: "network \<Rightarrow> DetailPanelProps \<Rightarrow> DetailData option \<times> fetch_request list" where
  "cmsSteps net p =
     (case cmsData p of
        None \<Rightarrow> (None, [])
      | Some cms \<Rightarrow>
          if truthy (desc cms) then (Some (fromCms p cms), [])
          else
            (case (sourceId p, source p) of
               (Some sid, Some src) \<Rightarrow>
                 if sid \<noteq> [] \<and> src \<noteq> [] then
                   (case sourceDetailApi net sid src (DetailPanelProps.title p) of
                      Rejected m \<Rightarrow> (None, [SourceDetailReq sid src (DetailPanelProps.title p)])
                    | Responded ok body \<Rightarrow>
                        (if ok then
                           (case body of
                              Inl m \<Rightarrow> None
                            | Inr d \<Rightarrow> Some (fromSourceDetail p cms d))
                         else None,
                         [SourceDetailReq sid src (DetailPanelProps.title p)]))
                 else (None, [])
             | _ \<Rightarrow> (None, [])))"

definition actualBangumiId :: "DetailPanelProps \<Rightarrow> int option" where
  "actualBangumiId p = orElseNum (bangumiId p) (doubanId p)"

definition bangumiBranch ::
  "network \<Rightarrow> DetailPanelProps \<Rightarrow> (jstring + DetailData) \<times> fetch_request list" where
  "bangumiBranch net p =
     (case bangumiApi net (actualBangumiId p) of
        Rejected m \<Rightarrow> Inl m
      | Responded ok body \<Rightarrow>
          if \<not> ok then Inl msgBangumiFailed
          else (case body of Inl m \<Rightarrow> Inl m | Inr d \<Rightarrow> Inr (fromBangumi p d)),
      [BangumiSubjectReq (actualBangumiId p)])"

definition doubanBranch ::
  "network \<Rightarrow> DetailPanelProps \<Rightarrow> (jstring + DetailData) \<times> fetch_request list" where
  "doubanBranch net p =
     (case doubanApi net (doubanId p) of
        Rejected m \<Rightarrow> Inl m
      | Responded ok body \<Rightarrow>
          if \<not> ok then Inl msgDoubanFailed
          else (case body of Inl m \<Rightarrow> Inl m | Inr d \<Rightarrow> Inr (fromDouban p d)),
      [DoubanDetailReq (doubanId p)])"

text \<open>
  The season's detail is fetched inside a \<^verbatim>\<open>try\<close> of its own, and
  \<^verbatim>\<open>seasonData\<close> stays \<^verbatim>\<open>null\<close> unless the response is
  \<^verbatim>\<open>ok\<close> and its body is read.
\<close>

fun seasonDataOf :: "tmdb_season fetched \<Rightarrow> tmdb_season option" where
  "seasonDataOf (Rejected m) = None"
| "seasonDataOf (Responded ok body) =
     (if ok then (case body of Inl m \<Rightarrow> None | Inr sd \<Rightarrow> Some sd) else None)"

definition mediaTypeOf :: "DetailPanelProps \<Rightarrow> tmdb_result \<Rightarrow> jstring" where
  "mediaTypeOf p result =
     (case tmdb_media_type result of
        Some m \<Rightarrow> if m \<noteq> [] then m else typeOrDefault p
      | None \<Rightarrow> typeOrDefault p)"

definition wantsSeason :: "DetailPanelProps \<Rightarrow> jstring \<Rightarrow> bool" where
  "wantsSeason p mediaType = (truthyJs (extractedSeasonNumber p) \<and> mediaType = ascii ''tv'')"

text \<open>
  After the detail is read, the season is requested when there is a season number and the
  media type is \<^verbatim>\<open>'tv'\<close>; only then the record is built, and its first member
  reads \<^verbatim>\<open>detailResult.title\<close> for a movie and \<^verbatim>\<open>detailResult.name\<close>
  otherwise, which throws when the body is \<^verbatim>\<open>null\<close>.
\<close>

definition tmdbDetailStep ::
  "network \<Rightarrow> DetailPanelProps \<Rightarrow> tmdb_result \<Rightarrow> (jstring + DetailData) \<times> fetch_request list" where
  "tmdbDetailStep net p result =
     (let detailId = tmdb_id result;
          mediaType = mediaTypeOf p result
      in case tmdbDetailApi net detailId mediaType of
           Rejected m \<Rightarrow> (Inl m, [TmdbDetailReq detailId mediaType])
         | Responded ok body \<Rightarrow>
             if \<not> ok then (Inl msgTmdbDetailFailed, [TmdbDetailReq detailId mediaType])
             else
               (case body of
                  Inl m \<Rightarrow> (Inl m, [TmdbDetailReq detailId mediaType])
                | Inr detailResult \<Rightarrow>
                    (let seasonData =
                           (if wantsSeason p mediaType
                            then seasonDataOf
                                   (tmdbSeasonsApi net detailId (extractedSeasonNumber p))
                            else None);
                         sent =
                           (if wantsSeason p mediaType
                            then [TmdbDetailReq detailId mediaType,
                                  TmdbSeasonsReq detailId (extractedSeasonNumber p)]
                            else [TmdbDetailReq detailId mediaType])
                     in (case detailResult of
                           None \<Rightarrow>
                             Inl (nullReadMessage
                                    (if mediaType = ascii ''movie'' then ascii ''title''
                                     else ascii ''name''))
                         | Some d \<Rightarrow> Inr (fromTmdb p mediaType d seasonData),
                         sent))))"

definition tmdbBranch ::
  "network \<Rightarrow> DetailPanelProps \<Rightarrow> (jstring + DetailData) \<times> fetch_request list" where
  "tmdbBranch net p =
     (case tmdbSearchApi net (searchTitle p) of
        Rejected m \<Rightarrow> (Inl m, [TmdbSearchReq (searchTitle p)])
      | Responded ok body \<Rightarrow>
          if \<not> ok then (Inl msgSearchFailed, [TmdbSearchReq (searchTitle p)])
          else
            (case body of
               Inl m \<Rightarrow> (Inl m, [TmdbSearchReq (searchTitle p)])
             | Inr searchData \<Rightarrow>
                 (case tmdb_results searchData of
                    Some (result # others) \<Rightarrow>
                      (fst (tmdbDetailStep net p result),
                       TmdbSearchReq (searchTitle p) # snd (tmdbDetailStep net p result))
                  | _ \<Rightarrow> (Inl msgNotFound, [TmdbSearchReq (searchTitle p)]))))"

text \<open>The branches on the ids and the title, after the steps on \<^verbatim>\<open>cmsData\<close>.\<close>

definition idBranches ::
  "network \<Rightarrow> DetailPanelProps \<Rightarrow> (jstring + DetailData) \<times> fetch_request list" where
  "idBranches net p =
     (if truthyNum (bangumiId p) \<or> (isBangumi p \<and> truthyNum (doubanId p)) then
        bangumiBranch net p
      else if truthyNum (doubanId p) \<and> \<not> isBangumi p then
        doubanBranch net p
      else if DetailPanelProps.title p \<noteq> [] then
        tmdbBranch net p
      else (Inl msgMissingQuery, []))"

definition fetchDetailTry ::
  "network \<Rightarrow> DetailPanelProps \<Rightarrow> (jstring + DetailData) \<times> fetch_request list" where
  "fetchDetailTry net p =
     (case cmsSteps net p of
        (Some d, sent) \<Rightarrow> (Inr d, sent)
      | (None, sent) \<Rightarrow> (fst (idBranches net p), sent @ snd (idBranches net p)))"

text \<open>
  The state of the panel that \<^verbatim>\<open>fetchDetail\<close> writes. It starts with
  \<^verbatim>\<open>setLoading(true); setError(null)\<close>; a record is stored by
  \<^verbatim>\<open>setDetailData\<close>; the outer \<^verbatim>\<open>catch\<close> stores the message of the
  error and leaves the record as it was; \<^verbatim>\<open>finally\<close> ends the loading.
\<close>

record panel_state =
  detailData :: "DetailData option"
  loading :: bool
  error :: "jstring option"

definition fetchDetail ::
  "network \<Rightarrow> DetailPanelProps \<Rightarrow> panel_state \<Rightarrow> panel_state \<times> fetch_request list" where
  "fetchDetail net p st =
     (case fst (fetchDetailTry net p) of
        Inr d \<Rightarrow> st\<lparr>detailData := Some d, loading := False, error := None\<rparr>
      | Inl m \<Rightarrow> st\<lparr>loading := False, error := Some m\<rparr>,
      snd (fetchDetailTry net p))"

section \<open>The joined path in the specification's words\<close>

text \<open>
  Following the specification's words ("exactly one separating slash at each join point",
  "single slash at each join, no duplication"): two segments joined so that exactly one
  slash stands between the left segment without its trailing slashes and the right segment
  without its leading slashes; the remote path joins the root path, the folder and the
  file name this way.
\<close>

definition isSlash :: "code_unit \<Rightarrow> bool" where
  "isSlash c = (c = slash)"

definition specJoin :: "jstring \<Rightarrow> jstring \<Rightarrow> jstring" where
  "specJoin l r = rev (dropWhile isSlash (rev l)) @ [slash] @ dropWhile isSlash r"

definition specFilePath :: "jstring option \<Rightarrow> jstring \<Rightarrow> jstring \<Rightarrow> jstring" where
  "specFilePath rp folderName fName = specJoin (specJoin (rootPath rp) folderName) fName"

definition startsWithSlash :: "jstring \<Rightarrow> bool" where
  "startsWithSlash s = (s \<noteq> [] \<and> hd s = slash)"

definition endsWithTwoSlashes :: "jstring \<Rightarrow> bool" where
  "endsWithTwoSlashes s = (endsWithSlash s \<and> endsWithSlash (butlast s))"

section \<open>Example requests of the playback resolver\<close>

definition exampleConfig :: openlist_config where
  "exampleConfig =
     \<lparr>Enabled = True, URL = ascii ''http://list.example'', Username = ascii ''admin'',
      Password = ascii ''pw'', RootPath = Some (ascii ''/x/'')\<rparr>"

definition exampleFile :: file_response where
  "exampleFile =
     \<lparr>code = 200, message = ascii ''success'',
      data = \<lparr>raw_url = Some (ascii ''http://cdn.example/b.mp4'')\<rparr>\<rparr>"

definition missingFile :: file_response where
  "missingFile = \<lparr>code = 404, message = ascii ''object not found'', data = \<lparr>raw_url = None\<rparr>\<rparr>"

definition relativeFile :: file_response where
  "relativeFile =
     \<lparr>code = 200, message = ascii ''success'', data = \<lparr>raw_url = Some (ascii ''/d/b.mp4'')\<rparr>\<rparr>"

definition spacedFile :: file_response where
  "spacedFile =
     \<lparr>code = 200, message = ascii ''success'',
      data = \<lparr>raw_url = Some (ascii ''http://cdn.example/a b.mp4'')\<rparr>\<rparr>"

text \<open>
  The framework's redirect as far as the examples call it: the absolute URL
  \<^verbatim>\<open>http://cdn.example/b.mp4\<close> is kept, the space in the path of
  \<^verbatim>\<open>http://cdn.example/a b.mp4\<close> is written \<^verbatim>\<open>%20\<close>, and the
  relative \<^verbatim>\<open>/d/b.mp4\<close> is refused with the framework's message. No example
  passes it another string; the table refuses those as well.
\<close>

definition malformedMessage :: "jstring \<Rightarrow> jstring" where
  "malformedMessage url =
     ascii ''URL is malformed '' @ [0x22] @ url @ [0x22]
     @ ascii ''. Please use only absolute URLs - https://nextjs.org/docs/messages/middleware-relative-urls''"

definition exampleRedirect :: "jstring \<Rightarrow> jstring + jstring" where
  "exampleRedirect url =
     (if url = ascii ''http://cdn.example/b.mp4'' then Inr url
      else if url = ascii ''http://cdn.example/a b.mp4''
      then Inr (ascii ''http://cdn.example/a%20b.mp4'')
      else Inl (malformedMessage url))"

definition exampleEnv :: resolver_env where
  "exampleEnv =
     \<lparr>subscribeToken = Some (ascii ''secret''),
      getConfig = Inr \<lparr>OpenListConfig = Some exampleConfig\<rparr>,
      getFile = (\<lambda>u n pw path.
                   if path = ascii ''/x/A/b.mp4'' then Inr exampleFile
                   else if path = ascii ''/x/A/d.mp4'' then Inr relativeFile
                   else if path = ascii ''/x/A/a b.mp4'' then Inr spacedFile
                   else Inr missingFile),
      redirect = exampleRedirect\<rparr>"

definition playRequest :: request where
  "playRequest =
     \<lparr>token = ascii ''secret'', cookieAuth = None,
      folder = Some (ascii ''A''), fileName = Some (ascii ''b.mp4'')\<rparr>"

definition anonymousRequest :: request where
  "anonymousRequest = playRequest\<lparr>token := ascii ''guess''\<rparr>"

definition anonymousNoFolder :: request where
  "anonymousNoFolder = anonymousRequest\<lparr>folder := None\<rparr>"

definition tokenNoFolder :: request where
  "tokenNoFolder = playRequest\<lparr>folder := None\<rparr>"

definition otherFileRequest :: request where
  "otherFileRequest = playRequest\<lparr>fileName := Some (ascii ''c.mp4'')\<rparr>"

definition relativeUrlRequest :: request where
  "relativeUrlRequest = playRequest\<lparr>fileName := Some (ascii ''d.mp4'')\<rparr>"

definition spacedUrlRequest :: request where
  "spacedUrlRequest = playRequest\<lparr>fileName := Some (ascii ''a b.mp4'')\<rparr>"

section \<open>Reading the requests of the cascade\<close>

text \<open>
  The step of the cascade a request belongs to: 2 for the detail of the source, 3 for
  Bangumi, 4 for Douban, 5 for the three endpoints of TMDB.
\<close>

fun stepOf :: "fetch_request \<Rightarrow> nat" where
  "stepOf (SourceDetailReq sid src t) = 2"
| "stepOf (BangumiSubjectReq i) = 3"
| "stepOf (DoubanDetailReq i) = 4"
| "stepOf (TmdbSearchReq q) = 5"
| "stepOf (TmdbDetailReq i t) = 5"
| "stepOf (TmdbSeasonsReq i n) = 5"

text \<open>
  A lookup fails when the fetch is rejected, the status is not a success, or the body
  cannot be read; the status alone decides \<open>httpFailed\<close>.
\<close>

fun lookupFailed :: "'a fetched \<Rightarrow> bool" where
  "lookupFailed (Rejected m) = True"
| "lookupFailed (Responded ok body) = (\<not> ok \<or> isl body)"

fun httpFailed :: "'a fetched \<Rightarrow> bool" where
  "httpFailed (Rejected m) = False"
| "httpFailed (Responded ok body) = (\<not> ok)"

section \<open>Example inputs of the cascade\<close>

definition jianWangChao :: jstring where
  "jianWangChao = [0x5251, 0x738B, 0x671D]"

definition jianWangChaoSeason2 :: jstring where
  "jianWangChaoSeason2 = [0x5251, 0x738B, 0x671D, 0x7B2C, 0x4E8C, 0x5B63]"

definition titleProps :: DetailPanelProps where
  "titleProps =
     \<lparr>DetailPanelProps.title = jianWangChaoSeason2, DetailPanelProps.poster = None,
      doubanId = None, bangumiId = None, isBangumi = False, tmdbId = None, type = None,
      seasonNumber = None, cmsData = None, sourceId = None, source = None\<rparr>"

definition inlineCms :: cms_data where
  "inlineCms =
     \<lparr>desc = Some (ascii ''X''), episodes = Some [ascii ''ep1'', ascii ''ep2''],
      episodes_titles = None\<rparr>"

definition inlineProps :: DetailPanelProps where
  "inlineProps = titleProps\<lparr>cmsData := Some inlineCms\<rparr>"

definition untitledInlineProps :: DetailPanelProps where
  "untitledInlineProps = inlineProps\<lparr>DetailPanelProps.title := []\<rparr>"

definition inlineBangumiProps :: DetailPanelProps where
  "inlineBangumiProps = inlineProps\<lparr>bangumiId := Some 5\<rparr>"

definition bangumiProps :: DetailPanelProps where
  "bangumiProps = titleProps\<lparr>bangumiId := Some 5, doubanId := Some 7\<rparr>"

definition doubanProps :: DetailPanelProps where
  "doubanProps = titleProps\<lparr>doubanId := Some 7\<rparr>"

definition zeroBangumiProps :: DetailPanelProps where
  "zeroBangumiProps = doubanProps\<lparr>bangumiId := Some 0\<rparr>"

definition sourceProps :: DetailPanelProps where
  "sourceProps =
     doubanProps\<lparr>cmsData := Some (inlineCms\<lparr>desc := None\<rparr>),
                  sourceId := Some (ascii ''42''), source := Some (ascii ''cms1'')\<rparr>"

definition idleState :: panel_state where
  "idleState = \<lparr>detailData = None, loading = False, error = None\<rparr>"

text \<open>A network on which every endpoint answers with an error status.\<close>

definition errorNet :: network where
  "errorNet =
     \<lparr>sourceDetailApi = (\<lambda>sid src t. Responded False (Inl (ascii ''no body''))),
      bangumiApi = (\<lambda>i. Responded False (Inl (ascii ''no body''))),
      doubanApi = (\<lambda>i. Responded False (Inl (ascii ''no body''))),
      tmdbSearchApi = (\<lambda>q. Responded False (Inl (ascii ''no body''))),
      tmdbDetailApi = (\<lambda>i t. Responded False (Inl (ascii ''no body''))),
      tmdbSeasonsApi = (\<lambda>i n. Responded False (Inl (ascii ''no body'')))\<rparr>"

definition emptyDouban :: douban_detail where
  "emptyDouban =
     \<lparr>db_title = None, db_original_title = None, db_year = None, db_pic = None,
      db_rating = None, db_intro = None, db_genres = None, db_directors = None,
      db_actors = None, db_countries = None, db_languages = None, db_durations = None,
      db_episodes_count = None\<rparr>"

text \<open>Douban answers with an object that has no members, or with a title only.\<close>

definition untitledDoubanNet :: network where
  "untitledDoubanNet = errorNet\<lparr>doubanApi := (\<lambda>i. Responded True (Inr emptyDouban))\<rparr>"

definition titledDoubanNet :: network where
  "titledDoubanNet =
     errorNet\<lparr>doubanApi := (\<lambda>i. Responded True (Inr (emptyDouban\<lparr>db_title := Some jianWangChao\<rparr>)))\<rparr>"




section \<open>Properties of the playback resolver\<close>

lemma truthy_iff: "truthy x \<longleftrightarrow> (\<exists>s. x = Some s \<and> s \<noteq> [])"
  by (cases x) auto

lemma example_token_valid: "hasValidToken exampleEnv playRequest"
  by (simp add: hasValidToken_def exampleEnv_def playRequest_def ascii_def)

lemma example_token_invalid: "\<not> hasValidToken exampleEnv anonymousRequest"
  by (simp add: hasValidToken_def exampleEnv_def anonymousRequest_def playRequest_def ascii_def)

lemma example_path:
  "filePath (Some (ascii ''/x/'')) (ascii ''A'') (ascii ''b.mp4'') = ascii ''/x/A/b.mp4''"
  by (simp add: filePath_def folderPath_def rootPath_def orElse_def endsWithSlash_def
      slash_def ascii_def)

lemma example_other_path:
  "filePath (Some (ascii ''/x/'')) (ascii ''A'') (ascii ''c.mp4'') = ascii ''/x/A/c.mp4''"
  by (simp add: filePath_def folderPath_def rootPath_def orElse_def endsWithSlash_def
      slash_def ascii_def)

lemma example_config_usable: "configUsable exampleConfig"
  by (simp add: configUsable_def exampleConfig_def ascii_def)

lemma example_fields:
  "getConfig exampleEnv = Inr \<lparr>OpenListConfig = Some exampleConfig\<rparr>"
  "redirect exampleEnv = exampleRedirect"
  "RootPath exampleConfig = Some (ascii ''/x/'')"
  "URL exampleConfig = ascii ''http://list.example''"
  "Username exampleConfig = ascii ''admin''"
  "Password exampleConfig = ascii ''pw''"
  by (simp_all add: exampleEnv_def exampleConfig_def)

lemma example_getFile:
  "getFile exampleEnv u a b (ascii ''/x/A/b.mp4'') = Inr exampleFile"
  "getFile exampleEnv u a b (ascii ''/x/A/c.mp4'') = Inr missingFile"
  "getFile exampleEnv u a b (ascii ''/x/A/d.mp4'') = Inr relativeFile"
  "getFile exampleEnv u a b (ascii ''/x/A/a b.mp4'') = Inr spacedFile"
  by (simp_all add: exampleEnv_def ascii_def)

lemma example_redirect:
  "exampleRedirect (ascii ''http://cdn.example/b.mp4'') = Inr (ascii ''http://cdn.example/b.mp4'')"
  "exampleRedirect (ascii ''http://cdn.example/a b.mp4'')
     = Inr (ascii ''http://cdn.example/a%20b.mp4'')"
  "exampleRedirect (ascii ''/d/b.mp4'') = Inl (malformedMessage (ascii ''/d/b.mp4''))"
  by (simp_all add: exampleRedirect_def ascii_def)

lemma example_file_paths:
  "filePath (Some (ascii ''/x/'')) (ascii ''A'') (ascii ''d.mp4'') = ascii ''/x/A/d.mp4''"
  "filePath (Some (ascii ''/x/'')) (ascii ''A'') (ascii ''a b.mp4'') = ascii ''/x/A/a b.mp4''"
  by (simp_all add: filePath_def folderPath_def rootPath_def orElse_def endsWithSlash_def
      slash_def ascii_def)

lemma example_requests:
  "hasValidToken exampleEnv otherFileRequest"
  "hasValidToken exampleEnv relativeUrlRequest"
  "hasValidToken exampleEnv spacedUrlRequest"
  "folder playRequest = Some (ascii ''A'')" "fileName playRequest = Some (ascii ''b.mp4'')"
  "folder otherFileRequest = Some (ascii ''A'')"
  "fileName otherFileRequest = Some (ascii ''c.mp4'')"
  "folder relativeUrlRequest = Some (ascii ''A'')"
  "fileName relativeUrlRequest = Some (ascii ''d.mp4'')"
  "folder spacedUrlRequest = Some (ascii ''A'')"
  "fileName spacedUrlRequest = Some (ascii ''a b.mp4'')"
  by (simp_all add: hasValidToken_def exampleEnv_def otherFileRequest_def
      relativeUrlRequest_def spacedUrlRequest_def playRequest_def ascii_def)

lemma example_not_empty:
  "ascii ''A'' \<noteq> []" "ascii ''b.mp4'' \<noteq> []" "ascii ''c.mp4'' \<noteq> []"
  "ascii ''d.mp4'' \<noteq> []" "ascii ''a b.mp4'' \<noteq> []"
  "ascii ''http://cdn.example/b.mp4'' \<noteq> []" "ascii ''http://cdn.example/a b.mp4'' \<noteq> []"
  "ascii ''/d/b.mp4'' \<noteq> []"
  by (simp_all add: ascii_def)

lemma example_files:
  "code exampleFile = 200"
  "raw_url (data exampleFile) = Some (ascii ''http://cdn.example/b.mp4'')"
  "code missingFile = 404" "raw_url (data missingFile) = None"
  "code relativeFile = 200" "raw_url (data relativeFile) = Some (ascii ''/d/b.mp4'')"
  "code spacedFile = 200"
  "raw_url (data spacedFile) = Some (ascii ''http://cdn.example/a b.mp4'')"
  by (simp_all add: exampleFile_def missingFile_def relativeFile_def spacedFile_def)

lemma GET_playRequest:
  "GET exampleEnv playRequest =
     (RedirectResponse (ascii ''http://cdn.example/b.mp4''),
      [GetConfigCall,
       GetFileCall (ascii ''http://list.example'') (ascii ''admin'') (ascii ''pw'')
         (ascii ''/x/A/b.mp4'')])"
  unfolding GET_def
  by (simp add: example_token_valid example_requests example_not_empty example_fields
      example_getFile example_files example_redirect example_path example_config_usable)

lemma GET_otherFileRequest:
  "GET exampleEnv otherFileRequest =
     (JsonResponse 500 msgPlayUrlFailed None,
      [GetConfigCall,
       GetFileCall (ascii ''http://list.example'') (ascii ''admin'') (ascii ''pw'')
         (ascii ''/x/A/c.mp4'')])"
  unfolding GET_def
  by (simp add: example_requests example_not_empty example_fields example_getFile
      example_files example_other_path example_config_usable)

lemma GET_relativeUrlRequest:
  "GET exampleEnv relativeUrlRequest =
     (JsonResponse 500 msgFailed (Some (malformedMessage (ascii ''/d/b.mp4''))),
      [GetConfigCall,
       GetFileCall (ascii ''http://list.example'') (ascii ''admin'') (ascii ''pw'')
         (ascii ''/x/A/d.mp4'')])"
  unfolding GET_def
  by (simp add: example_requests example_not_empty example_fields example_getFile
      example_files example_redirect example_file_paths example_config_usable)

lemma GET_spacedUrlRequest:
  "GET exampleEnv spacedUrlRequest =
     (RedirectResponse (ascii ''http://cdn.example/a%20b.mp4''),
      [GetConfigCall,
       GetFileCall (ascii ''http://list.example'') (ascii ''admin'') (ascii ''pw'')
         (ascii ''/x/A/a b.mp4'')])"
  unfolding GET_def
  by (simp add: example_requests example_not_empty example_fields example_getFile
      example_files example_redirect example_file_paths example_config_usable)

text \<open>
  C1. A request whose path token is not the configured subscribe token and that carries
  no session with a non-empty user name is answered with status 401 and an error body,
  whatever its \<^verbatim>\<open>folder\<close> and \<^verbatim>\<open>fileName\<close> parameters are and whatever
  the configuration store and the file-listing service would answer; nothing is called.
\<close>

theorem unauthorized_401:
  assumes "subscribeToken env \<noteq> Some (token req)"
    and "cookieAuth req = None \<or> (\<exists>a. cookieAuth req = Some a \<and> \<not> truthy (username a))"
  shows "GET (env\<lparr>getConfig := cfg, getFile := gf\<rparr>) (req\<lparr>folder := fo, fileName := fi\<rparr>)
           = (JsonResponse 401 msgUnauthorized None, [])
         \<and> statusOf (fst (GET (env\<lparr>getConfig := cfg, getFile := gf\<rparr>)
                             (req\<lparr>folder := fo, fileName := fi\<rparr>))) = 401
         \<and> errorBody (fst (GET (env\<lparr>getConfig := cfg, getFile := gf\<rparr>)
                              (req\<lparr>folder := fo, fileName := fi\<rparr>))) = Some msgUnauthorized
         \<and> msgUnauthorized \<noteq> []"
proof -
  have t: "\<not> hasValidToken (env\<lparr>getConfig := cfg, getFile := gf\<rparr>)
               (req\<lparr>folder := fo, fileName := fi\<rparr>)"
    using assms(1) by (auto simp: hasValidToken_def split: option.splits)
  have a: "\<not> hasValidAuth (req\<lparr>folder := fo, fileName := fi\<rparr>)"
    using assms(2) by (auto simp: hasValidAuth_def)
  show ?thesis using t a by (simp add: GET_def msgUnauthorized_def)
qed

theorem unauthorized_401_witness:
  "subscribeToken exampleEnv \<noteq> Some (token anonymousRequest)
   \<and> cookieAuth anonymousRequest = None
   \<and> GET exampleEnv anonymousRequest = (JsonResponse 401 msgUnauthorized None, [])
   \<and> statusOf (fst (GET exampleEnv anonymousRequest)) = 401"
proof -
  have t: "subscribeToken exampleEnv \<noteq> Some (token anonymousRequest)"
    by (simp add: exampleEnv_def anonymousRequest_def playRequest_def ascii_def)
  have c: "cookieAuth anonymousRequest = None"
    by (simp add: anonymousRequest_def playRequest_def)
  have "GET (exampleEnv\<lparr>getConfig := getConfig exampleEnv, getFile := getFile exampleEnv\<rparr>)
          (anonymousRequest\<lparr>folder := folder anonymousRequest,
                             fileName := fileName anonymousRequest\<rparr>)
        = (JsonResponse 401 msgUnauthorized None, [])"
    using unauthorized_401 [where env = exampleEnv and req = anonymousRequest
        and cfg = "getConfig exampleEnv" and gf = "getFile exampleEnv"
        and fo = "folder anonymousRequest" and fi = "fileName anonymousRequest"] t c
    by blast
  then show ?thesis using t c by simp
qed

text \<open>
  C2, as stated, fails: a request that is not authorized and has no \<^verbatim>\<open>folder\<close>
  is answered with 401, since the authorization is checked first.
\<close>

theorem missing_params_unauthorized_counterexample:
  "folder anonymousNoFolder = None
   \<and> statusOf (fst (GET exampleEnv anonymousNoFolder)) = 401
   \<and> statusOf (fst (GET exampleEnv anonymousNoFolder)) \<noteq> 400"
proof -
  have t: "\<not> hasValidToken exampleEnv anonymousNoFolder"
    by (simp add: hasValidToken_def exampleEnv_def anonymousNoFolder_def anonymousRequest_def
        playRequest_def ascii_def)
  have a: "\<not> hasValidAuth anonymousNoFolder"
    by (simp add: hasValidAuth_def anonymousNoFolder_def anonymousRequest_def playRequest_def)
  have "GET exampleEnv anonymousNoFolder = (JsonResponse 401 msgUnauthorized None, [])"
    using t a by (simp add: GET_def)
  then show ?thesis
    by (simp add: anonymousNoFolder_def)
qed

text \<open>
  C2, amended. Every authorized request (the path token is the subscribe token, or the
  session has a non-empty user name) in which \<^verbatim>\<open>folder\<close> or
  \<^verbatim>\<open>fileName\<close> is absent or empty is answered with status 400, and neither the
  configuration store nor the file-listing service is called.
\<close>

theorem missing_params_400:
  assumes "hasValidToken env req \<or> hasValidAuth req"
    and "\<not> truthy (folder req) \<or> \<not> truthy (fileName req)"
  shows "GET env req = (JsonResponse 400 msgMissingParams None, [])
         \<and> statusOf (fst (GET env req)) = 400
         \<and> \<not> (\<exists>c \<in> set (snd (GET env req)). isFileCall c)"
proof -
  have g: "GET env req = (JsonResponse 400 msgMissingParams None, [])"
    using assms by (auto simp: GET_def truthy_iff split: option.splits)
  then show ?thesis by simp
qed

theorem missing_params_400_witness:
  "hasValidToken exampleEnv tokenNoFolder
   \<and> \<not> truthy (folder tokenNoFolder)
   \<and> GET exampleEnv tokenNoFolder = (JsonResponse 400 msgMissingParams None, [])"
proof -
  have t: "hasValidToken exampleEnv tokenNoFolder"
    by (simp add: hasValidToken_def exampleEnv_def tokenNoFolder_def playRequest_def ascii_def)
  have f: "\<not> truthy (folder tokenNoFolder)"
    by (simp add: tokenNoFolder_def)
  show ?thesis
    using missing_params_400 [of exampleEnv tokenNoFolder] t f by blast
qed

lemma GET_reaches_file:
  assumes "hasValidToken env req \<or> hasValidAuth req"
    and "folder req = Some fo" "fo \<noteq> []" "fileName req = Some fi" "fi \<noteq> []"
    and "getConfig env = Inr cfg" "OpenListConfig cfg = Some oc" "configUsable oc"
  shows "GET env req =
           (case getFile env (URL oc) (Username oc) (Password oc) (filePath (RootPath oc) fo fi) of
              Inl e \<Rightarrow> JsonResponse 500 msgFailed (Some e)
            | Inr r \<Rightarrow>
                (case raw_url (data r) of
                   None \<Rightarrow> JsonResponse 500 msgPlayUrlFailed None
                 | Some url \<Rightarrow>
                     if code r = 200 \<and> url \<noteq> [] then
                       (case redirect env url of
                          Inl e \<Rightarrow> JsonResponse 500 msgFailed (Some e)
                        | Inr location \<Rightarrow> RedirectResponse location)
                     else JsonResponse 500 msgPlayUrlFailed None),
            [GetConfigCall,
             GetFileCall (URL oc) (Username oc) (Password oc) (filePath (RootPath oc) fo fi)])"
proof -
  have a: "\<not> (\<not> hasValidToken env req \<and> \<not> hasValidAuth req)"
    using assms(1) by blast
  show ?thesis
    unfolding GET_def
    by (simp only: a if_False assms case_prod_conv option.case sum.case Let_def simp_thms)
      (simp split: sum.split option.split)
qed

lemma GET_stops_early:
  assumes "\<not> (\<exists>fo fi cfg oc.
              (hasValidToken env req \<or> hasValidAuth req)
              \<and> folder req = Some fo \<and> fo \<noteq> [] \<and> fileName req = Some fi \<and> fi \<noteq> []
              \<and> getConfig env = Inr cfg \<and> OpenListConfig cfg = Some oc \<and> configUsable oc)"
  shows "\<exists>st err details. fst (GET env req) = JsonResponse st err details
           \<and> set (snd (GET env req)) \<subseteq> {GetConfigCall}"
proof (cases "\<not> hasValidToken env req \<and> \<not> hasValidAuth req")
  case True
  then show ?thesis by (simp add: GET_def)
next
  case auth: False
  show ?thesis
  proof (cases "folder req")
    case None
    with auth show ?thesis by (simp add: GET_def)
  next
    case fo: (Some fo)
    show ?thesis
    proof (cases "fileName req")
      case None
      with auth fo show ?thesis by (simp add: GET_def)
    next
      case fi: (Some fi)
      show ?thesis
      proof (cases "fo = [] \<or> fi = []")
        case True
        with auth fo fi show ?thesis by (simp add: GET_def)
      next
        case ne: False
        show ?thesis
        proof (cases "getConfig env")
          case (Inl e)
          with auth fo fi ne show ?thesis by (simp add: GET_def)
        next
          case cfg: (Inr cfg)
          show ?thesis
          proof (cases "OpenListConfig cfg")
            case None
            with auth fo fi ne cfg show ?thesis by (simp add: GET_def)
          next
            case oc: (Some oc)
            have "\<not> configUsable oc"
              using assms auth fo fi ne cfg oc by blast
            with auth fo fi ne cfg oc show ?thesis by (simp add: GET_def)
          qed
        qed
      qed
    qed
  qed
qed

lemma GET_after_file_call:
  assumes "GetFileCall u n pw path \<in> set (snd (GET env req))"
  shows "fst (GET env req) =
           (case getFile env u n pw path of
              Inl e \<Rightarrow> JsonResponse 500 msgFailed (Some e)
            | Inr r \<Rightarrow>
                (case raw_url (data r) of
                   None \<Rightarrow> JsonResponse 500 msgPlayUrlFailed None
                 | Some url \<Rightarrow>
                     if code r = 200 \<and> url \<noteq> [] then
                       (case redirect env url of
                          Inl e \<Rightarrow> JsonResponse 500 msgFailed (Some e)
                        | Inr location \<Rightarrow> RedirectResponse location)
                     else JsonResponse 500 msgPlayUrlFailed None))"
proof -
  have "\<not> set (snd (GET env req)) \<subseteq> {GetConfigCall}"
    using assms by auto
  then obtain fo fi cfg oc where h: "hasValidToken env req \<or> hasValidAuth req"
    "folder req = Some fo" "fo \<noteq> []" "fileName req = Some fi" "fi \<noteq> []"
    "getConfig env = Inr cfg" "OpenListConfig cfg = Some oc" "configUsable oc"
    using GET_stops_early [of env req] by blast
  note g = GET_reaches_file [OF h]
  from assms have "u = URL oc \<and> n = Username oc \<and> pw = Password oc
      \<and> path = filePath (RootPath oc) fo fi"
    by (simp add: g)
  then show ?thesis by (simp add: g)
qed

lemma GET_redirect_called:
  assumes "fst (GET env req) = RedirectResponse location"
  shows "\<exists>u n pw path. GetFileCall u n pw path \<in> set (snd (GET env req))"
proof -
  obtain fo fi cfg oc where h: "hasValidToken env req \<or> hasValidAuth req"
    "folder req = Some fo" "fo \<noteq> []" "fileName req = Some fi" "fi \<noteq> []"
    "getConfig env = Inr cfg" "OpenListConfig cfg = Some oc" "configUsable oc"
  proof -
    have "\<not> (\<exists>st err details. fst (GET env req) = JsonResponse st err details)"
      using assms by simp
    then show ?thesis
      using that GET_stops_early [of env req] by blast
  qed
  show ?thesis
    by (simp add: GET_reaches_file [OF h])
qed

text \<open>
  C3, as stated, fails: the redirect is built by the framework, which refuses a
  \<^verbatim>\<open>raw_url\<close> that is not an absolute URL; the error is caught and the answer is
  500 although the response of the service has code 200 and a non-empty
  \<^verbatim>\<open>raw_url\<close>. And where the framework accepts the \<^verbatim>\<open>raw_url\<close>, the
  target is the URL as it serialises it, which for a space in the path is not the
  \<^verbatim>\<open>raw_url\<close> itself.
\<close>

theorem redirect_refused_counterexample:
  "GetFileCall (ascii ''http://list.example'') (ascii ''admin'') (ascii ''pw'')
     (ascii ''/x/A/d.mp4'') \<in> set (snd (GET exampleEnv relativeUrlRequest))
   \<and> getFile exampleEnv (ascii ''http://list.example'') (ascii ''admin'') (ascii ''pw'')
       (ascii ''/x/A/d.mp4'') = Inr relativeFile
   \<and> code relativeFile = 200
   \<and> raw_url (data relativeFile) = Some (ascii ''/d/b.mp4'')
   \<and> statusOf (fst (GET exampleEnv relativeUrlRequest)) = 500
   \<and> \<not> isRedirect (fst (GET exampleEnv relativeUrlRequest))
   \<and> getFile exampleEnv (ascii ''http://list.example'') (ascii ''admin'') (ascii ''pw'')
       (ascii ''/x/A/a b.mp4'') = Inr spacedFile
   \<and> code spacedFile = 200
   \<and> raw_url (data spacedFile) = Some (ascii ''http://cdn.example/a b.mp4'')
   \<and> fst (GET exampleEnv spacedUrlRequest)
       = RedirectResponse (ascii ''http://cdn.example/a%20b.mp4'')
   \<and> fst (GET exampleEnv spacedUrlRequest)
       \<noteq> RedirectResponse (ascii ''http://cdn.example/a b.mp4'')"
  by (simp add: GET_relativeUrlRequest GET_spacedUrlRequest example_getFile example_files)
    (simp add: ascii_def)

text \<open>
  C3, amended. The response is a redirect if and only if the handler called the
  file-listing service, its response has code 200 and a non-empty \<^verbatim>\<open>raw_url\<close>,
  and the framework's redirect accepts that \<^verbatim>\<open>raw_url\<close>; the target is the
  \<^verbatim>\<open>raw_url\<close> as the framework serialises it. Whenever the response of the service
  has another code, or no or an empty \<^verbatim>\<open>raw_url\<close>, the handler answers with status
  500 and does not redirect; and so it does, with the framework's message as the detail,
  when the framework refuses the \<^verbatim>\<open>raw_url\<close>.
\<close>

theorem redirect_iff_upstream_accepted:
  "(fst (GET env req) = RedirectResponse location \<longleftrightarrow>
      (\<exists>u n pw path r url.
         GetFileCall u n pw path \<in> set (snd (GET env req))
         \<and> getFile env u n pw path = Inr r
         \<and> code r = 200 \<and> raw_url (data r) = Some url \<and> url \<noteq> []
         \<and> redirect env url = Inr location))
   \<and> (\<forall>u n pw path r.
         GetFileCall u n pw path \<in> set (snd (GET env req))
         \<and> getFile env u n pw path = Inr r
         \<and> (code r \<noteq> 200 \<or> \<not> truthy (raw_url (data r)))
         \<longrightarrow> statusOf (fst (GET env req)) = 500 \<and> \<not> isRedirect (fst (GET env req)))
   \<and> (\<forall>u n pw path r url e.
         GetFileCall u n pw path \<in> set (snd (GET env req))
         \<and> getFile env u n pw path = Inr r
         \<and> code r = 200 \<and> raw_url (data r) = Some url \<and> url \<noteq> []
         \<and> redirect env url = Inl e
         \<longrightarrow> fst (GET env req) = JsonResponse 500 msgFailed (Some e)
             \<and> statusOf (fst (GET env req)) = 500 \<and> \<not> isRedirect (fst (GET env req)))"
proof -
  let ?ok = "\<exists>u n pw path r url.
         GetFileCall u n pw path \<in> set (snd (GET env req))
         \<and> getFile env u n pw path = Inr r
         \<and> code r = 200 \<and> raw_url (data r) = Some url \<and> url \<noteq> []
         \<and> redirect env url = Inr location"
  have fwd: ?ok if red: "fst (GET env req) = RedirectResponse location"
  proof -
    obtain u n pw path where c: "GetFileCall u n pw path \<in> set (snd (GET env req))"
      using GET_redirect_called [OF red] by blast
    have "\<exists>r url. getFile env u n pw path = Inr r
            \<and> code r = 200 \<and> raw_url (data r) = Some url \<and> url \<noteq> []
            \<and> redirect env url = Inr location"
    proof (cases "getFile env u n pw path")
      case (Inl e)
      with GET_after_file_call [OF c] red show ?thesis by simp
    next
      case r: (Inr r)
      show ?thesis
      proof (cases "raw_url (data r)")
        case None
        with GET_after_file_call [OF c] red r show ?thesis by simp
      next
        case v: (Some v)
        show ?thesis
        proof (cases "code r = 200 \<and> v \<noteq> []")
          case False
          with GET_after_file_call [OF c] red r v show ?thesis by simp
        next
          case ok: True
          show ?thesis
          proof (cases "redirect env v")
            case (Inl e)
            with GET_after_file_call [OF c] red r v ok show ?thesis by simp
          next
            case (Inr l)
            with GET_after_file_call [OF c] red r v ok have "l = location" by simp
            with Inr r v ok show ?thesis by simp
          qed
        qed
      qed
    qed
    with c show ?thesis by blast
  qed
  have bwd: "fst (GET env req) = RedirectResponse location" if ?ok
  proof -
    from that obtain u n pw path r url
      where c: "GetFileCall u n pw path \<in> set (snd (GET env req))"
        and r: "getFile env u n pw path = Inr r" "code r = 200" "raw_url (data r) = Some url"
          "url \<noteq> []" "redirect env url = Inr location"
      by blast
    from GET_after_file_call [OF c] r show ?thesis by simp
  qed
  have bad: "statusOf (fst (GET env req)) = 500 \<and> \<not> isRedirect (fst (GET env req))"
    if a: "GetFileCall u n pw path \<in> set (snd (GET env req))
         \<and> getFile env u n pw path = Inr r
         \<and> (code r \<noteq> 200 \<or> \<not> truthy (raw_url (data r)))" for u n pw path r
  proof -
    from a have c: "GetFileCall u n pw path \<in> set (snd (GET env req))"
      and r: "getFile env u n pw path = Inr r"
      and b: "code r \<noteq> 200 \<or> \<not> truthy (raw_url (data r))"
      by simp_all
    have "fst (GET env req) = JsonResponse 500 msgPlayUrlFailed None"
    proof (cases "raw_url (data r)")
      case None
      with GET_after_file_call [OF c] r show ?thesis by simp
    next
      case (Some v)
      with b have "\<not> (code r = 200 \<and> v \<noteq> [])" by auto
      with GET_after_file_call [OF c] r Some show ?thesis by simp
    qed
    then show ?thesis by simp
  qed
  have refused: "fst (GET env req) = JsonResponse 500 msgFailed (Some e)
             \<and> statusOf (fst (GET env req)) = 500 \<and> \<not> isRedirect (fst (GET env req))"
    if a: "GetFileCall u n pw path \<in> set (snd (GET env req))
         \<and> getFile env u n pw path = Inr r
         \<and> code r = 200 \<and> raw_url (data r) = Some url \<and> url \<noteq> []
         \<and> redirect env url = Inl e" for u n pw path r url e
  proof -
    from a have c: "GetFileCall u n pw path \<in> set (snd (GET env req))"
      and r: "getFile env u n pw path = Inr r" "code r = 200" "raw_url (data r) = Some url"
        "url \<noteq> []" "redirect env url = Inl e"
      by simp_all
    from GET_after_file_call [OF c] r
    have "fst (GET env req) = JsonResponse 500 msgFailed (Some e)" by simp
    then show ?thesis by simp
  qed
  have iff: "fst (GET env req) = RedirectResponse location \<longleftrightarrow> ?ok"
    using fwd bwd by (rule iffI)
  have all1: "\<forall>u n pw path r.
         GetFileCall u n pw path \<in> set (snd (GET env req))
         \<and> getFile env u n pw path = Inr r
         \<and> (code r \<noteq> 200 \<or> \<not> truthy (raw_url (data r)))
         \<longrightarrow> statusOf (fst (GET env req)) = 500 \<and> \<not> isRedirect (fst (GET env req))"
    using bad by (intro allI impI)
  have all2: "\<forall>u n pw path r url e.
         GetFileCall u n pw path \<in> set (snd (GET env req))
         \<and> getFile env u n pw path = Inr r
         \<and> code r = 200 \<and> raw_url (data r) = Some url \<and> url \<noteq> []
         \<and> redirect env url = Inl e
         \<longrightarrow> fst (GET env req) = JsonResponse 500 msgFailed (Some e)
             \<and> statusOf (fst (GET env req)) = 500 \<and> \<not> isRedirect (fst (GET env req))"
    using refused by (intro allI impI)
  show ?thesis using iff all1 all2 by (intro conjI)
qed

theorem redirect_iff_upstream_accepted_witness:
  "GetFileCall (ascii ''http://list.example'') (ascii ''admin'') (ascii ''pw'')
        (ascii ''/x/A/b.mp4'') \<in> set (snd (GET exampleEnv playRequest))
   \<and> redirect exampleEnv (ascii ''http://cdn.example/b.mp4'')
       = Inr (ascii ''http://cdn.example/b.mp4'')
   \<and> fst (GET exampleEnv playRequest) = RedirectResponse (ascii ''http://cdn.example/b.mp4'')
   \<and> GetFileCall (ascii ''http://list.example'') (ascii ''admin'') (ascii ''pw'')
        (ascii ''/x/A/c.mp4'') \<in> set (snd (GET exampleEnv otherFileRequest))
   \<and> code missingFile \<noteq> 200
   \<and> statusOf (fst (GET exampleEnv otherFileRequest)) = 500
   \<and> \<not> isRedirect (fst (GET exampleEnv otherFileRequest))
   \<and> GetFileCall (ascii ''http://list.example'') (ascii ''admin'') (ascii ''pw'')
        (ascii ''/x/A/d.mp4'') \<in> set (snd (GET exampleEnv relativeUrlRequest))
   \<and> redirect exampleEnv (ascii ''/d/b.mp4'') = Inl (malformedMessage (ascii ''/d/b.mp4''))
   \<and> fst (GET exampleEnv relativeUrlRequest)
       = JsonResponse 500 msgFailed (Some (malformedMessage (ascii ''/d/b.mp4'')))"
proof -
  let ?u = "ascii ''http://list.example''" and ?n = "ascii ''admin''" and ?pw = "ascii ''pw''"
  have c1: "GetFileCall ?u ?n ?pw (ascii ''/x/A/b.mp4'') \<in> set (snd (GET exampleEnv playRequest))"
    by (simp add: GET_playRequest)
  have g1: "getFile exampleEnv ?u ?n ?pw (ascii ''/x/A/b.mp4'') = Inr exampleFile"
    by (rule example_getFile)
  have x1: "code exampleFile = 200"
    "raw_url (data exampleFile) = Some (ascii ''http://cdn.example/b.mp4'')"
    "ascii ''http://cdn.example/b.mp4'' \<noteq> []"
    by (simp_all add: example_files example_not_empty)
  have d1: "redirect exampleEnv (ascii ''http://cdn.example/b.mp4'')
              = Inr (ascii ''http://cdn.example/b.mp4'')"
    by (simp add: example_fields example_redirect)
  have c2: "GetFileCall ?u ?n ?pw (ascii ''/x/A/c.mp4'') \<in> set (snd (GET exampleEnv otherFileRequest))"
    by (simp add: GET_otherFileRequest)
  have g2: "getFile exampleEnv ?u ?n ?pw (ascii ''/x/A/c.mp4'') = Inr missingFile"
    by (rule example_getFile)
  have x2: "code missingFile \<noteq> 200"
    by (simp add: example_files)
  have c3: "GetFileCall ?u ?n ?pw (ascii ''/x/A/d.mp4'')
              \<in> set (snd (GET exampleEnv relativeUrlRequest))"
    by (simp add: GET_relativeUrlRequest)
  have g3: "getFile exampleEnv ?u ?n ?pw (ascii ''/x/A/d.mp4'') = Inr relativeFile"
    by (rule example_getFile)
  have x3: "code relativeFile = 200" "raw_url (data relativeFile) = Some (ascii ''/d/b.mp4'')"
    "ascii ''/d/b.mp4'' \<noteq> []"
    by (simp_all add: example_files example_not_empty)
  have d3: "redirect exampleEnv (ascii ''/d/b.mp4'') = Inl (malformedMessage (ascii ''/d/b.mp4''))"
    by (simp add: example_fields example_redirect)
  note ok = redirect_iff_upstream_accepted
    [of exampleEnv playRequest "ascii ''http://cdn.example/b.mp4''", THEN conjunct1, THEN iffD2]
  note bad = redirect_iff_upstream_accepted
    [of exampleEnv otherFileRequest "[]", THEN conjunct2, THEN conjunct1, rule_format]
  note refused = redirect_iff_upstream_accepted
    [of exampleEnv relativeUrlRequest "[]", THEN conjunct2, THEN conjunct2, rule_format]
  have r1: "fst (GET exampleEnv playRequest) = RedirectResponse (ascii ''http://cdn.example/b.mp4'')"
    by (rule ok, intro exI conjI, rule c1, rule g1, rule x1, rule x1, rule x1, rule d1)
  have r2: "statusOf (fst (GET exampleEnv otherFileRequest)) = 500
            \<and> \<not> isRedirect (fst (GET exampleEnv otherFileRequest))"
    by (rule bad, intro conjI, rule c2, rule g2, rule disjI1, rule x2)
  have r3: "fst (GET exampleEnv relativeUrlRequest)
              = JsonResponse 500 msgFailed (Some (malformedMessage (ascii ''/d/b.mp4'')))
            \<and> statusOf (fst (GET exampleEnv relativeUrlRequest)) = 500
            \<and> \<not> isRedirect (fst (GET exampleEnv relativeUrlRequest))"
    by (rule refused, intro conjI, rule c3, rule g3, rule x3, rule x3, rule x3, rule d3)
  show ?thesis using r1 r2 r3 c1 c2 c3 x2 d1 d3 by simp
qed

lemma strip_trailing_none:
  assumes "\<not> endsWithSlash l"
  shows "rev (dropWhile isSlash (rev l)) = l"
  using assms by (cases l rule: rev_cases) (auto simp: endsWithSlash_def isSlash_def)

lemma strip_trailing_one:
  assumes "endsWithSlash l" and "\<not> endsWithSlash (butlast l)"
  shows "rev (dropWhile isSlash (rev l)) @ [slash] = l"
proof (cases l rule: rev_cases)
  case Nil
  with assms(1) show ?thesis by (simp add: endsWithSlash_def)
next
  case (snoc l' c)
  with assms(1) have c: "c = slash" by (simp add: endsWithSlash_def)
  from snoc assms(2) have "\<not> endsWithSlash l'" by simp
  then have "rev (dropWhile isSlash (rev l')) = l'" by (rule strip_trailing_none)
  with snoc c show ?thesis by (simp add: isSlash_def)
qed

lemma strip_leading_none:
  assumes "\<not> startsWithSlash r"
  shows "dropWhile isSlash r = r"
  using assms by (cases r) (auto simp: startsWithSlash_def isSlash_def)

lemma folderPath_specJoin:
  assumes "\<not> endsWithTwoSlashes (rootPath rp)" and "\<not> startsWithSlash folderName"
  shows "folderPath rp folderName = specJoin (rootPath rp) folderName"
proof (cases "endsWithSlash (rootPath rp)")
  case True
  with assms(1) have "\<not> endsWithSlash (butlast (rootPath rp))"
    by (simp add: endsWithTwoSlashes_def)
  with True have "rev (dropWhile isSlash (rev (rootPath rp))) @ [slash] = rootPath rp"
    by (rule strip_trailing_one)
  then have "specJoin (rootPath rp) folderName = rootPath rp @ dropWhile isSlash folderName"
    by (simp add: specJoin_def)
  with True assms(2) show ?thesis
    by (simp add: folderPath_def strip_leading_none)
next
  case False
  then show ?thesis
    using assms(2) by (simp add: folderPath_def specJoin_def strip_trailing_none strip_leading_none)
qed

lemma folderPath_no_trailing_slash:
  assumes "folderName \<noteq> []" and "\<not> endsWithSlash folderName"
  shows "\<not> endsWithSlash (folderPath rp folderName)"
  using assms by (simp add: folderPath_def endsWithSlash_def)

lemma example_spec_path:
  "specFilePath (Some (ascii ''/x/'')) (ascii ''A'') (ascii ''b.mp4'') = ascii ''/x/A/b.mp4''"
  by (simp add: specFilePath_def specJoin_def rootPath_def orElse_def isSlash_def slash_def
      ascii_def)

text \<open>
  C4, as stated, fails: the code puts one slash between folder and file whatever the
  two are, and looks only at the last character of the root path. For the root path
  \<^verbatim>\<open>/x/\<close>, the folder \<^verbatim>\<open>A/\<close> and the file \<^verbatim>\<open>b.mp4\<close> the
  path has two slashes where folder and file are joined.
\<close>

theorem file_path_double_slash_counterexample:
  "filePath (Some (ascii ''/x/'')) (ascii ''A/'') (ascii ''b.mp4'') = ascii ''/x/A//b.mp4''
   \<and> specFilePath (Some (ascii ''/x/'')) (ascii ''A/'') (ascii ''b.mp4'') = ascii ''/x/A/b.mp4''
   \<and> filePath (Some (ascii ''/x/'')) (ascii ''A/'') (ascii ''b.mp4'')
       \<noteq> specFilePath (Some (ascii ''/x/'')) (ascii ''A/'') (ascii ''b.mp4'')"
  by (simp add: filePath_def folderPath_def specFilePath_def specJoin_def rootPath_def
      orElse_def endsWithSlash_def isSlash_def slash_def ascii_def)

text \<open>
  C4, amended. For every root path that does not end in two slashes, every non-empty
  folder name that neither begins nor ends with a slash and every file name that does not
  begin with a slash, the constructed path joins the three segments with exactly one
  separating slash at each join point; in particular, for the root path
  \<^verbatim>\<open>/x/\<close>, the folder \<^verbatim>\<open>A\<close> and the file \<^verbatim>\<open>b.mp4\<close> it is
  \<^verbatim>\<open>/x/A/b.mp4\<close>.
\<close>

theorem file_path_single_slashes:
  "(\<forall>rp folderName fName.
      \<not> endsWithTwoSlashes (rootPath rp) \<and> folderName \<noteq> []
      \<and> \<not> startsWithSlash folderName \<and> \<not> endsWithSlash folderName
      \<and> \<not> startsWithSlash fName
      \<longrightarrow> filePath rp folderName fName = specFilePath rp folderName fName)
   \<and> filePath (Some (ascii ''/x/'')) (ascii ''A'') (ascii ''b.mp4'') = ascii ''/x/A/b.mp4''"
proof (rule conjI)
  show "\<forall>rp folderName fName.
      \<not> endsWithTwoSlashes (rootPath rp) \<and> folderName \<noteq> []
      \<and> \<not> startsWithSlash folderName \<and> \<not> endsWithSlash folderName
      \<and> \<not> startsWithSlash fName
      \<longrightarrow> filePath rp folderName fName = specFilePath rp folderName fName"
  proof (intro allI impI)
    fix rp folderName fName
    assume a: "\<not> endsWithTwoSlashes (rootPath rp) \<and> folderName \<noteq> []
      \<and> \<not> startsWithSlash folderName \<and> \<not> endsWithSlash folderName
      \<and> \<not> startsWithSlash fName"
    then have fp: "folderPath rp folderName = specJoin (rootPath rp) folderName"
      by (simp add: folderPath_specJoin)
    from a have "\<not> endsWithSlash (folderPath rp folderName)"
      by (simp add: folderPath_no_trailing_slash)
    then have "specJoin (folderPath rp folderName) fName = folderPath rp folderName @ [slash] @ fName"
      using a by (simp add: specJoin_def strip_trailing_none strip_leading_none)
    with fp show "filePath rp folderName fName = specFilePath rp folderName fName"
      by (simp add: filePath_def specFilePath_def)
  qed
next
  show "filePath (Some (ascii ''/x/'')) (ascii ''A'') (ascii ''b.mp4'') = ascii ''/x/A/b.mp4''"
    by (rule example_path)
qed

theorem file_path_single_slashes_witness:
  "\<not> endsWithTwoSlashes (rootPath (Some (ascii ''/x/''))) \<and> ascii ''A'' \<noteq> []
   \<and> \<not> startsWithSlash (ascii ''A'') \<and> \<not> endsWithSlash (ascii ''A'')
   \<and> \<not> startsWithSlash (ascii ''b.mp4'')
   \<and> filePath (Some (ascii ''/x/'')) (ascii ''A'') (ascii ''b.mp4'')
       = specFilePath (Some (ascii ''/x/'')) (ascii ''A'') (ascii ''b.mp4'')
   \<and> specFilePath (Some (ascii ''/x/'')) (ascii ''A'') (ascii ''b.mp4'') = ascii ''/x/A/b.mp4''"
proof -
  have h: "\<not> endsWithTwoSlashes (rootPath (Some (ascii ''/x/''))) \<and> ascii ''A'' \<noteq> []
      \<and> \<not> startsWithSlash (ascii ''A'') \<and> \<not> endsWithSlash (ascii ''A'')
      \<and> \<not> startsWithSlash (ascii ''b.mp4'')"
    by (simp add: endsWithTwoSlashes_def endsWithSlash_def startsWithSlash_def rootPath_def
        orElse_def slash_def ascii_def)
  note eq = file_path_single_slashes [THEN conjunct1, rule_format, OF h]
  show ?thesis using h eq example_spec_path by simp
qed

section \<open>Properties of the metadata cascade\<close>

subsection \<open>The requests of each part\<close>

lemma cmsSteps_trace:
  "snd (cmsSteps net p) = []
   \<or> (\<exists>sid src. snd (cmsSteps net p) = [SourceDetailReq sid src (DetailPanelProps.title p)])"
  by (auto simp: cmsSteps_def split: option.splits sum.splits fetched.splits)

lemma cmsSteps_stepOf:
  assumes "r \<in> set (snd (cmsSteps net p))"
  shows "stepOf r = 2"
  using assms cmsSteps_trace [of net p] by auto

lemma bangumiBranch_snd: "snd (bangumiBranch net p) = [BangumiSubjectReq (actualBangumiId p)]"
  by (simp add: bangumiBranch_def)

lemma doubanBranch_snd: "snd (doubanBranch net p) = [DoubanDetailReq (doubanId p)]"
  by (simp add: doubanBranch_def)

lemma tmdbDetailStep_stepOf:
  assumes "r \<in> set (snd (tmdbDetailStep net p result))"
  shows "stepOf r = 5"
  using assms
  by (auto simp: tmdbDetailStep_def Let_def split: fetched.splits sum.splits if_splits)

lemma tmdbBranch_stepOf:
  assumes "r \<in> set (snd (tmdbBranch net p))"
  shows "stepOf r = 5"
  using assms
  by (auto simp: tmdbBranch_def dest: tmdbDetailStep_stepOf
      split: fetched.splits sum.splits if_splits option.splits list.splits)

lemma idBranches_stepOf:
  assumes "r \<in> set (snd (idBranches net p))"
  shows "3 \<le> stepOf r"
  using assms
  by (auto simp: idBranches_def bangumiBranch_snd doubanBranch_snd dest: tmdbBranch_stepOf
      split: if_splits)

lemma fetchDetailTry_fst:
  "fst (fetchDetailTry net p) =
     (case fst (cmsSteps net p) of Some d \<Rightarrow> Inr d | None \<Rightarrow> fst (idBranches net p))"
  by (cases "cmsSteps net p") (simp add: fetchDetailTry_def split: option.splits)

lemma fetchDetailTry_snd:
  "snd (fetchDetailTry net p) =
     snd (cmsSteps net p)
     @ (case fst (cmsSteps net p) of Some d \<Rightarrow> [] | None \<Rightarrow> snd (idBranches net p))"
  by (cases "cmsSteps net p") (simp add: fetchDetailTry_def split: option.splits)

lemma later_request_falls_through:
  assumes "r \<in> set (snd (fetchDetailTry net p))" and "3 \<le> stepOf r"
  shows "fst (cmsSteps net p) = None \<and> r \<in> set (snd (idBranches net p))"
proof -
  have "r \<notin> set (snd (cmsSteps net p))"
    using assms(2) cmsSteps_stepOf [of r net p] by auto
  with assms(1) show ?thesis
    by (cases "fst (cmsSteps net p)") (simp_all add: fetchDetailTry_snd)
qed

lemma fetchDetail_result:
  "fst (fetchDetailTry net p) = Inr d \<Longrightarrow>
     fst (fetchDetail net p st) = st\<lparr>detailData := Some d, loading := False, error := None\<rparr>"
  "fst (fetchDetailTry net p) = Inl m \<Longrightarrow>
     fst (fetchDetail net p st) = st\<lparr>loading := False, error := Some m\<rparr>"
  "snd (fetchDetail net p st) = snd (fetchDetailTry net p)"
  by (simp_all add: fetchDetail_def)

subsection \<open>The inline synopsis\<close>

text \<open>
  C7. When the inline data of the source carries a non-empty synopsis, the record that is
  stored has this synopsis, its episode count is the length of the episode list that was
  supplied (and is absent when none was), and no request is sent: none of the later
  steps is reached.
\<close>

theorem inline_synopsis_no_request:
  assumes "cmsData p = Some cms" and "desc cms = Some x" and "x \<noteq> []"
  shows "\<exists>d. fetchDetail net p st
                = (st\<lparr>detailData := Some d, loading := False, error := None\<rparr>, [])
           \<and> intro d = Some x
           \<and> (\<forall>eps. episodes cms = Some eps \<longrightarrow> episodesCount d = Some (int (length eps)))
           \<and> (episodes cms = None \<longrightarrow> episodesCount d = None)"
proof -
  have c: "cmsSteps net p = (Some (fromCms p cms), [])"
    using assms by (simp add: cmsSteps_def)
  then have t: "fetchDetailTry net p = (Inr (fromCms p cms), [])"
    by (simp add: fetchDetailTry_def)
  have f: "fetchDetail net p st
             = (st\<lparr>detailData := Some (fromCms p cms), loading := False, error := None\<rparr>, [])"
    by (simp add: fetchDetail_def t)
  have i: "intro (fromCms p cms) = Some x"
    using assms(2) by (simp add: fromCms_def)
  have e: "episodesCount (fromCms p cms) = lengthOf (episodes cms)"
    by (simp add: fromCms_def)
  show ?thesis
    using f i e by (intro exI [of _ "fromCms p cms"]) (simp add: lengthOf_def)
qed

theorem inline_synopsis_no_request_witness:
  "cmsData inlineProps = Some inlineCms \<and> desc inlineCms = Some (ascii ''X'')
   \<and> ascii ''X'' \<noteq> []
   \<and> (\<exists>d. fetchDetail errorNet inlineProps idleState
              = (idleState\<lparr>detailData := Some d, loading := False, error := None\<rparr>, [])
         \<and> intro d = Some (ascii ''X'') \<and> episodesCount d = Some 2)"
proof -
  have h: "cmsData inlineProps = Some inlineCms" "desc inlineCms = Some (ascii ''X'')"
    "ascii ''X'' \<noteq> []"
    by (simp_all add: inlineProps_def inlineCms_def ascii_def)
  have e: "episodes inlineCms = Some [ascii ''ep1'', ascii ''ep2'']"
    by (simp add: inlineCms_def)
  from inline_synopsis_no_request [OF h, of errorNet idleState]
  obtain d where d: "fetchDetail errorNet inlineProps idleState
              = (idleState\<lparr>detailData := Some d, loading := False, error := None\<rparr>, [])"
      "intro d = Some (ascii ''X'')"
      "\<forall>eps. episodes inlineCms = Some eps \<longrightarrow> episodesCount d = Some (int (length eps))"
    by blast
  from d(3) e have "episodesCount d = Some 2" by simp
  with d(1,2) h show ?thesis by blast
qed

subsection \<open>Which failures end the cascade\<close>

lemma cmsSteps_failed:
  assumes "SourceDetailReq sid src t \<in> set (snd (cmsSteps net p))"
    and "lookupFailed (sourceDetailApi net sid src t)"
  shows "cmsSteps net p = (None, [SourceDetailReq sid src t])"
  using assms
  by (auto simp: cmsSteps_def split: option.splits sum.splits fetched.splits if_splits)

lemma idBranches_bangumi_request:
  assumes "BangumiSubjectReq i \<in> set (snd (idBranches net p))"
  shows "idBranches net p = bangumiBranch net p \<and> i = actualBangumiId p"
  using assms
  by (auto simp: idBranches_def bangumiBranch_snd doubanBranch_snd dest: tmdbBranch_stepOf
      split: if_splits)

lemma idBranches_douban_request:
  assumes "DoubanDetailReq i \<in> set (snd (idBranches net p))"
  shows "idBranches net p = doubanBranch net p \<and> i = doubanId p"
  using assms
  by (auto simp: idBranches_def bangumiBranch_snd doubanBranch_snd dest: tmdbBranch_stepOf
      split: if_splits)

lemma bangumiBranch_http_failed:
  assumes "httpFailed (bangumiApi net (actualBangumiId p))"
  shows "fst (bangumiBranch net p) = Inl msgBangumiFailed"
  using assms by (cases "bangumiApi net (actualBangumiId p)") (simp_all add: bangumiBranch_def)

lemma doubanBranch_http_failed:
  assumes "httpFailed (doubanApi net (doubanId p))"
  shows "fst (doubanBranch net p) = Inl msgDoubanFailed"
  using assms by (cases "doubanApi net (doubanId p)") (simp_all add: doubanBranch_def)

lemma source_detail_falls_through:
  assumes "SourceDetailReq sid src t \<in> set (snd (fetchDetailTry net p))"
    and "lookupFailed (sourceDetailApi net sid src t)"
  shows "fetchDetailTry net p
           = (fst (idBranches net p), SourceDetailReq sid src t # snd (idBranches net p))"
proof -
  have "SourceDetailReq sid src t \<notin> set (snd (idBranches net p))"
    using idBranches_stepOf [of "SourceDetailReq sid src t" net p] by auto
  with assms(1) have "SourceDetailReq sid src t \<in> set (snd (cmsSteps net p))"
    by (cases "fst (cmsSteps net p)") (simp_all add: fetchDetailTry_snd)
  then have "cmsSteps net p = (None, [SourceDetailReq sid src t])"
    using assms(2) by (rule cmsSteps_failed)
  then show ?thesis by (simp add: fetchDetailTry_def)
qed

lemma bangumi_failure_ends:
  assumes "BangumiSubjectReq i \<in> set (snd (fetchDetailTry net p))"
    and "httpFailed (bangumiApi net i)"
  shows "fst (fetchDetailTry net p) = Inl msgBangumiFailed
         \<and> (\<forall>r \<in> set (snd (fetchDetailTry net p)). stepOf r \<le> 3)"
proof -
  have c: "fst (cmsSteps net p) = None" and b: "BangumiSubjectReq i \<in> set (snd (idBranches net p))"
    using later_request_falls_through [OF assms(1)] by simp_all
  from idBranches_bangumi_request [OF b]
  have e: "idBranches net p = bangumiBranch net p" and i: "i = actualBangumiId p"
    by simp_all
  have f: "fst (fetchDetailTry net p) = Inl msgBangumiFailed"
    using assms(2) by (simp add: fetchDetailTry_fst c e i bangumiBranch_http_failed)
  have "stepOf r \<le> 3" if "r \<in> set (snd (fetchDetailTry net p))" for r
    using that cmsSteps_stepOf [of r net p]
    by (auto simp: fetchDetailTry_snd c e bangumiBranch_snd)
  with f show ?thesis by blast
qed

lemma douban_failure_ends:
  assumes "DoubanDetailReq i \<in> set (snd (fetchDetailTry net p))"
    and "httpFailed (doubanApi net i)"
  shows "fst (fetchDetailTry net p) = Inl msgDoubanFailed
         \<and> (\<forall>r \<in> set (snd (fetchDetailTry net p)). stepOf r \<le> 4)"
proof -
  have c: "fst (cmsSteps net p) = None" and b: "DoubanDetailReq i \<in> set (snd (idBranches net p))"
    using later_request_falls_through [OF assms(1)] by simp_all
  from idBranches_douban_request [OF b]
  have e: "idBranches net p = doubanBranch net p" and i: "i = doubanId p"
    by simp_all
  have f: "fst (fetchDetailTry net p) = Inl msgDoubanFailed"
    using assms(2) by (simp add: fetchDetailTry_fst c e i doubanBranch_http_failed)
  have "stepOf r \<le> 4" if "r \<in> set (snd (fetchDetailTry net p))" for r
    using that cmsSteps_stepOf [of r net p]
    by (auto simp: fetchDetailTry_snd c e doubanBranch_snd)
  with f show ?thesis by blast
qed

lemma messages_not_empty: "msgBangumiFailed \<noteq> []" "msgDoubanFailed \<noteq> []"
  by (simp_all add: msgBangumiFailed_def msgDoubanFailed_def)

text \<open>
  C5. When the lookup of the source's detail (step 2) fails, by a rejected fetch, an
  error status or an unreadable body, the cascade goes on with the branches on the Bangumi
  id, the Douban id and the title, and its outcome is theirs. When the Bangumi lookup
  (step 3) or the Douban lookup (step 4) is answered with an error status, the resolution
  ends with a non-empty error message, which the panel stores, and no request of a later
  step is sent: in particular no TMDB search, which is of step 5.
\<close>

theorem failure_policy_asymmetric:
  "(\<forall>sid src t.
      SourceDetailReq sid src t \<in> set (snd (fetchDetailTry net p))
      \<and> lookupFailed (sourceDetailApi net sid src t)
      \<longrightarrow> fetchDetailTry net p
            = (fst (idBranches net p), SourceDetailReq sid src t # snd (idBranches net p)))
   \<and> (\<forall>i. BangumiSubjectReq i \<in> set (snd (fetchDetailTry net p)) \<and> httpFailed (bangumiApi net i)
      \<longrightarrow> fst (fetchDetailTry net p) = Inl msgBangumiFailed \<and> msgBangumiFailed \<noteq> []
          \<and> error (fst (fetchDetail net p st)) = Some msgBangumiFailed
          \<and> (\<forall>r \<in> set (snd (fetchDetail net p st)). stepOf r \<le> 3))
   \<and> (\<forall>i. DoubanDetailReq i \<in> set (snd (fetchDetailTry net p)) \<and> httpFailed (doubanApi net i)
      \<longrightarrow> fst (fetchDetailTry net p) = Inl msgDoubanFailed \<and> msgDoubanFailed \<noteq> []
          \<and> error (fst (fetchDetail net p st)) = Some msgDoubanFailed
          \<and> (\<forall>r \<in> set (snd (fetchDetail net p st)). stepOf r \<le> 4))"
proof (intro conjI allI impI)
  fix sid src t
  assume "SourceDetailReq sid src t \<in> set (snd (fetchDetailTry net p))
      \<and> lookupFailed (sourceDetailApi net sid src t)"
  then show "fetchDetailTry net p
            = (fst (idBranches net p), SourceDetailReq sid src t # snd (idBranches net p))"
    using source_detail_falls_through by blast
next
  fix i
  assume a: "BangumiSubjectReq i \<in> set (snd (fetchDetailTry net p)) \<and> httpFailed (bangumiApi net i)"
  then have e: "fst (fetchDetailTry net p) = Inl msgBangumiFailed
         \<and> (\<forall>r \<in> set (snd (fetchDetailTry net p)). stepOf r \<le> 3)"
    using bangumi_failure_ends by blast
  from e show "fst (fetchDetailTry net p) = Inl msgBangumiFailed" by simp
  show "msgBangumiFailed \<noteq> []" by (rule messages_not_empty)
  from e show "error (fst (fetchDetail net p st)) = Some msgBangumiFailed"
    by (simp add: fetchDetail_result)
  from e show "\<forall>r \<in> set (snd (fetchDetail net p st)). stepOf r \<le> 3"
    by (simp add: fetchDetail_result)
next
  fix i
  assume a: "DoubanDetailReq i \<in> set (snd (fetchDetailTry net p)) \<and> httpFailed (doubanApi net i)"
  then have e: "fst (fetchDetailTry net p) = Inl msgDoubanFailed
         \<and> (\<forall>r \<in> set (snd (fetchDetailTry net p)). stepOf r \<le> 4)"
    using douban_failure_ends by blast
  from e show "fst (fetchDetailTry net p) = Inl msgDoubanFailed" by simp
  show "msgDoubanFailed \<noteq> []" by (rule messages_not_empty)
  from e show "error (fst (fetchDetail net p st)) = Some msgDoubanFailed"
    by (simp add: fetchDetail_result)
  from e show "\<forall>r \<in> set (snd (fetchDetail net p st)). stepOf r \<le> 4"
    by (simp add: fetchDetail_result)
qed

lemma cmsSteps_sourceProps:
  "cmsSteps errorNet sourceProps
     = (None, [SourceDetailReq (ascii ''42'') (ascii ''cms1'') jianWangChaoSeason2])"
  by (simp add: cmsSteps_def sourceProps_def doubanProps_def titleProps_def inlineCms_def
      errorNet_def ascii_def)

lemma idBranches_sourceProps:
  "idBranches errorNet sourceProps = (Inl msgDoubanFailed, [DoubanDetailReq (Some 7)])"
  by (simp add: idBranches_def doubanBranch_def sourceProps_def doubanProps_def titleProps_def
      errorNet_def)

lemma fetchDetailTry_bangumiProps:
  "fetchDetailTry errorNet bangumiProps = (Inl msgBangumiFailed, [BangumiSubjectReq (Some 5)])"
  by (simp add: fetchDetailTry_def cmsSteps_def idBranches_def bangumiBranch_def
      actualBangumiId_def orElseNum_def bangumiProps_def titleProps_def errorNet_def)

theorem failure_policy_asymmetric_witness:
  "SourceDetailReq (ascii ''42'') (ascii ''cms1'') jianWangChaoSeason2
     \<in> set (snd (fetchDetailTry errorNet sourceProps))
   \<and> lookupFailed (sourceDetailApi errorNet (ascii ''42'') (ascii ''cms1'') jianWangChaoSeason2)
   \<and> fetchDetailTry errorNet sourceProps
       = (Inl msgDoubanFailed,
          [SourceDetailReq (ascii ''42'') (ascii ''cms1'') jianWangChaoSeason2,
           DoubanDetailReq (Some 7)])
   \<and> httpFailed (doubanApi errorNet (Some 7))
   \<and> error (fst (fetchDetail errorNet sourceProps idleState)) = Some msgDoubanFailed
   \<and> BangumiSubjectReq (Some 5) \<in> set (snd (fetchDetailTry errorNet bangumiProps))
   \<and> httpFailed (bangumiApi errorNet (Some 5))
   \<and> error (fst (fetchDetail errorNet bangumiProps idleState)) = Some msgBangumiFailed
   \<and> snd (fetchDetail errorNet bangumiProps idleState) = [BangumiSubjectReq (Some 5)]"
proof -
  let ?req = "SourceDetailReq (ascii ''42'') (ascii ''cms1'') jianWangChaoSeason2"
  have t: "fetchDetailTry errorNet sourceProps = (Inl msgDoubanFailed, [?req, DoubanDetailReq (Some 7)])"
    by (simp add: fetchDetailTry_def cmsSteps_sourceProps idBranches_sourceProps)
  have s: "?req \<in> set (snd (fetchDetailTry errorNet sourceProps))"
    by (simp add: t)
  have d: "DoubanDetailReq (Some 7) \<in> set (snd (fetchDetailTry errorNet sourceProps))"
    by (simp add: t)
  have b: "BangumiSubjectReq (Some 5) \<in> set (snd (fetchDetailTry errorNet bangumiProps))"
    by (simp add: fetchDetailTry_bangumiProps)
  have f: "lookupFailed (sourceDetailApi errorNet (ascii ''42'') (ascii ''cms1'') jianWangChaoSeason2)"
    "httpFailed (doubanApi errorNet (Some 7))" "httpFailed (bangumiApi errorNet (Some 5))"
    by (simp_all add: errorNet_def)
  note fall = failure_policy_asymmetric
    [of errorNet sourceProps idleState, THEN conjunct1, rule_format, OF conjI, OF s f(1)]
  note douban = failure_policy_asymmetric
    [of errorNet sourceProps idleState, THEN conjunct2, THEN conjunct2, rule_format, OF conjI,
      OF d f(2)]
  note bangumi = failure_policy_asymmetric
    [of errorNet bangumiProps idleState, THEN conjunct2, THEN conjunct1, rule_format, OF conjI,
      OF b f(3)]
  have e1: "error (fst (fetchDetail errorNet sourceProps idleState)) = Some msgDoubanFailed"
    using douban by simp
  have e2: "error (fst (fetchDetail errorNet bangumiProps idleState)) = Some msgBangumiFailed"
    using bangumi by simp
  have r: "snd (fetchDetail errorNet bangumiProps idleState) = [BangumiSubjectReq (Some 5)]"
    by (simp add: fetchDetail_result fetchDetailTry_bangumiProps)
  have t': "fetchDetailTry errorNet sourceProps
       = (Inl msgDoubanFailed, [?req, DoubanDetailReq (Some 7)])"
    using fall by (simp add: idBranches_sourceProps)
  show ?thesis
    using s f t' e1 e2 b r by simp
qed

subsection \<open>Which id goes to Bangumi\<close>

lemma cmsSteps_ids_irrelevant:
  "cmsSteps net (p\<lparr>isBangumi := flag, doubanId := did\<rparr>) = cmsSteps net p"
  by (simp add: cmsSteps_def fromCms_def fromSourceDetail_def
      split: option.splits fetched.splits sum.splits)

lemma bangumiBranch_own_id:
  assumes "truthyNum (bangumiId p)"
  shows "bangumiBranch net (p\<lparr>isBangumi := flag, doubanId := did\<rparr>)
           = (fst (bangumiBranch net p), [BangumiSubjectReq (bangumiId p)])"
  using assms
  by (simp add: bangumiBranch_def actualBangumiId_def orElseNum_def fromBangumi_def
      split: fetched.splits sum.splits)

lemma fetchDetailTry_inlineBangumiProps:
  "fetchDetailTry errorNet inlineBangumiProps = (Inr (fromCms inlineBangumiProps inlineCms), [])"
  by (simp add: fetchDetailTry_def cmsSteps_def inlineBangumiProps_def inlineProps_def
      titleProps_def inlineCms_def ascii_def)

lemma fetchDetailTry_zeroBangumiProps:
  "fetchDetailTry errorNet zeroBangumiProps = (Inl msgDoubanFailed, [DoubanDetailReq (Some 7)])"
  by (simp add: fetchDetailTry_def cmsSteps_def idBranches_def doubanBranch_def
      zeroBangumiProps_def doubanProps_def titleProps_def errorNet_def)

text \<open>
  C9, as stated, fails: with a synopsis in the inline data the record comes from the first
  step, and a Bangumi id that is supplied as well is never looked up. The test on the id
  is one of truth, so the Bangumi id 0 is passed over too, here for the Douban id.
\<close>

theorem bangumi_id_after_inline_counterexample:
  "bangumiId inlineBangumiProps = Some 5
   \<and> snd (fetchDetail errorNet inlineBangumiProps idleState) = []
   \<and> BangumiSubjectReq (Some 5) \<notin> set (snd (fetchDetail errorNet inlineBangumiProps idleState))
   \<and> bangumiId zeroBangumiProps = Some 0
   \<and> snd (fetchDetail errorNet zeroBangumiProps idleState) = [DoubanDetailReq (Some 7)]"
  by (simp add: fetchDetail_result fetchDetailTry_inlineBangumiProps
      fetchDetailTry_zeroBangumiProps)
    (simp add: inlineBangumiProps_def inlineProps_def zeroBangumiProps_def doubanProps_def
      titleProps_def)

text \<open>
  C9, amended. Whenever a Bangumi id other than 0 is supplied and the steps on the inline
  data have not produced the record, the Bangumi branch is taken with that id itself,
  whatever the flag and the Douban id are; and a request to Bangumi carries the Douban id
  only when no Bangumi id (or 0) is supplied and the flag is set.
\<close>

theorem bangumi_id_precedence:
  "(\<forall>flag did.
      fst (cmsSteps net p) = None \<and> truthyNum (bangumiId p)
      \<longrightarrow> fetchDetailTry net (p\<lparr>isBangumi := flag, doubanId := did\<rparr>)
            = (fst (bangumiBranch net p),
               snd (cmsSteps net p) @ [BangumiSubjectReq (bangumiId p)]))
   \<and> (\<forall>i. BangumiSubjectReq i \<in> set (snd (fetchDetailTry net p))
        \<longrightarrow> (truthyNum (bangumiId p) \<and> i = bangumiId p)
            \<or> (\<not> truthyNum (bangumiId p) \<and> isBangumi p \<and> truthyNum (doubanId p)
               \<and> i = doubanId p))"
proof (intro conjI allI impI)
  fix flag did
  assume a: "fst (cmsSteps net p) = None \<and> truthyNum (bangumiId p)"
  let ?p = "p\<lparr>isBangumi := flag, doubanId := did\<rparr>"
  have b: "truthyNum (bangumiId ?p)" using a by simp
  then have "idBranches net ?p = bangumiBranch net ?p"
    by (simp add: idBranches_def)
  also have "\<dots> = (fst (bangumiBranch net p), [BangumiSubjectReq (bangumiId p)])"
    using a by (simp add: bangumiBranch_own_id)
  finally have i: "idBranches net ?p = (fst (bangumiBranch net p), [BangumiSubjectReq (bangumiId p)])" .
  obtain sent where c: "cmsSteps net p = (None, sent)"
    using a by (cases "cmsSteps net p") simp
  show "fetchDetailTry net ?p
          = (fst (bangumiBranch net p), snd (cmsSteps net p) @ [BangumiSubjectReq (bangumiId p)])"
    by (simp add: fetchDetailTry_def cmsSteps_ids_irrelevant c i)
next
  fix i
  assume a: "BangumiSubjectReq i \<in> set (snd (fetchDetailTry net p))"
  have b: "BangumiSubjectReq i \<in> set (snd (idBranches net p))"
    using later_request_falls_through [OF a] by simp
  from idBranches_bangumi_request [OF b]
  have e: "idBranches net p = bangumiBranch net p" and i: "i = actualBangumiId p"
    by simp_all
  have t: "truthyNum (bangumiId p) \<or> (isBangumi p \<and> truthyNum (doubanId p))"
  proof (rule ccontr)
    assume n: "\<not> (truthyNum (bangumiId p) \<or> (isBangumi p \<and> truthyNum (doubanId p)))"
    then have "\<forall>r \<in> set (snd (idBranches net p)). stepOf r \<noteq> 3"
      by (auto simp: idBranches_def doubanBranch_snd dest: tmdbBranch_stepOf split: if_splits)
    with b show False by auto
  qed
  show "(truthyNum (bangumiId p) \<and> i = bangumiId p)
            \<or> (\<not> truthyNum (bangumiId p) \<and> isBangumi p \<and> truthyNum (doubanId p)
               \<and> i = doubanId p)"
    using t i by (auto simp: actualBangumiId_def orElseNum_def)
qed

theorem bangumi_id_precedence_witness:
  "fst (cmsSteps errorNet bangumiProps) = None \<and> truthyNum (bangumiId bangumiProps)
   \<and> doubanId bangumiProps = Some 7 \<and> isBangumi bangumiProps = False
   \<and> snd (fetchDetailTry errorNet bangumiProps) = [BangumiSubjectReq (Some 5)]"
proof -
  have c: "cmsSteps errorNet bangumiProps = (None, [])"
    by (simp add: cmsSteps_def bangumiProps_def titleProps_def)
  have b: "bangumiId bangumiProps = Some 5" "doubanId bangumiProps = Some 7"
    "isBangumi bangumiProps = False"
    by (simp_all add: bangumiProps_def titleProps_def)
  have h: "fst (cmsSteps errorNet bangumiProps) = None \<and> truthyNum (bangumiId bangumiProps)"
    by (simp add: c b)
  note own = bangumi_id_precedence
    [of errorNet bangumiProps, THEN conjunct1, rule_format, OF h,
      where flag = False and did = "Some 7"]
  have u: "bangumiProps\<lparr>isBangumi := False, doubanId := Some 7\<rparr> = bangumiProps"
    by (simp add: bangumiProps_def titleProps_def)
  have "snd (fetchDetailTry errorNet bangumiProps) = [BangumiSubjectReq (Some 5)]"
    using own by (simp add: u c b)
  with h b show ?thesis by simp
qed

subsection \<open>The detail of the season\<close>








lemma stripSeason_example:
  "stripSeason jianWangChaoSeason2 None = (jianWangChao, Some (Finite 2))"
  by (simp add: stripSeason_def seasonPatterns_def chineseSeasonPattern_def isSeasonNumeral_def
      chineseNumerals_def isDigit_def trim_def isSpace_def seasonOfGroup_def chineseNumbers_def
      orElseJs_def jianWangChao_def jianWangChaoSeason2_def)









subsection \<open>The title of the record\<close>

lemma cmsSteps_title:
  assumes "fst (cmsSteps net p) = Some d"
  shows "(\<exists>cms. cmsData p = Some cms \<and> truthy (desc cms)
            \<and> title d = Some (DetailPanelProps.title p))
         \<or> (\<exists>sid src b.
               SourceDetailReq sid src (DetailPanelProps.title p) \<in> set (snd (cmsSteps net p))
               \<and> sourceDetailApi net sid src (DetailPanelProps.title p) = Responded True (Inr b)
               \<and> title d = orElse (sd_title b) (Some (DetailPanelProps.title p)))"
proof -
  from assms obtain cms where cms: "cmsData p = Some cms"
    by (cases "cmsData p") (simp_all add: cmsSteps_def)
  show ?thesis
  proof (cases "truthy (desc cms)")
    case True
    with assms cms have "d = fromCms p cms" by (simp add: cmsSteps_def)
    then have "title d = Some (DetailPanelProps.title p)" by (simp add: fromCms_def)
    with cms True show ?thesis by blast
  next
    case False
    with assms cms obtain sid src b
      where r: "sourceDetailApi net sid src (DetailPanelProps.title p) = Responded True (Inr b)"
        and s: "snd (cmsSteps net p) = [SourceDetailReq sid src (DetailPanelProps.title p)]"
        and d: "d = fromSourceDetail p cms b"
      by (auto simp: cmsSteps_def split: option.splits sum.splits fetched.splits if_splits)
    have "title (fromSourceDetail p cms b) = orElse (sd_title b) (Some (DetailPanelProps.title p))"
      by (simp add: fromSourceDetail_def)
    with r s d show ?thesis by auto
  qed
qed

lemma bangumiBranch_title:
  assumes "fst (bangumiBranch net p) = Inr d"
  shows "\<exists>b. bangumiApi net (actualBangumiId p) = Responded True (Inr b)
           \<and> title d = orElse (bgm_name_cn b) (bgm_name b)"
proof -
  from assms obtain b where b: "bangumiApi net (actualBangumiId p) = Responded True (Inr b)"
    and d: "d = fromBangumi p b"
    by (auto simp: bangumiBranch_def split: fetched.splits sum.splits if_splits)
  have "title (fromBangumi p b) = orElse (bgm_name_cn b) (bgm_name b)"
    by (simp add: fromBangumi_def)
  with b d show ?thesis by blast
qed

lemma doubanBranch_title:
  assumes "fst (doubanBranch net p) = Inr d"
  shows "\<exists>b. doubanApi net (doubanId p) = Responded True (Inr b) \<and> title d = db_title b"
proof -
  from assms obtain b where b: "doubanApi net (doubanId p) = Responded True (Inr b)"
    and d: "d = fromDouban p b"
    by (auto simp: doubanBranch_def split: fetched.splits sum.splits if_splits)
  have "title (fromDouban p b) = db_title b"
    by (simp add: fromDouban_def)
  with b d show ?thesis by blast
qed

lemma tmdbDetailStep_title:
  assumes "fst (tmdbDetailStep net p result) = Inr d"
  shows "\<exists>i t b. TmdbDetailReq i t \<in> set (snd (tmdbDetailStep net p result))
           \<and> tmdbDetailApi net i t = Responded True (Inr (Some b))
           \<and> title d = (if t = ascii ''movie'' then tmdb_title b else tmdb_name b)"
proof -
  let ?i = "tmdb_id result" and ?t = "mediaTypeOf p result"
  from assms obtain b sd where b: "tmdbDetailApi net ?i ?t = Responded True (Inr (Some b))"
    and d: "d = fromTmdb p ?t b sd"
    by (auto simp: tmdbDetailStep_def Let_def
        split: fetched.splits sum.splits option.splits if_splits)
  have r: "TmdbDetailReq ?i ?t \<in> set (snd (tmdbDetailStep net p result))"
    using b by (simp add: tmdbDetailStep_def Let_def)
  have "title (fromTmdb p ?t b sd) = (if ?t = ascii ''movie'' then tmdb_title b else tmdb_name b)"
    by (simp add: fromTmdb_def Let_def)
  with b d r show ?thesis by blast
qed

lemma tmdbBranch_title:
  assumes "fst (tmdbBranch net p) = Inr d"
  shows "\<exists>i t b. TmdbDetailReq i t \<in> set (snd (tmdbBranch net p))
           \<and> tmdbDetailApi net i t = Responded True (Inr (Some b))
           \<and> title d = (if t = ascii ''movie'' then tmdb_title b else tmdb_name b)"
proof -
  from assms obtain result where r: "fst (tmdbDetailStep net p result) = Inr d"
    and s: "snd (tmdbBranch net p)
              = TmdbSearchReq (searchTitle p) # snd (tmdbDetailStep net p result)"
    by (auto simp: tmdbBranch_def
        split: fetched.splits sum.splits if_splits option.splits list.splits)
  from tmdbDetailStep_title [OF r] obtain i t b
    where b: "TmdbDetailReq i t \<in> set (snd (tmdbDetailStep net p result))"
      "tmdbDetailApi net i t = Responded True (Inr (Some b))"
      "title d = (if t = ascii ''movie'' then tmdb_title b else tmdb_name b)"
    by blast
  have "TmdbDetailReq i t \<in> set (snd (tmdbBranch net p))"
    using s b(1) by simp
  with b(2,3) show ?thesis by blast
qed

lemma idBranches_cases:
  "idBranches net p = bangumiBranch net p \<or> idBranches net p = doubanBranch net p
   \<or> idBranches net p = tmdbBranch net p \<or> idBranches net p = (Inl msgMissingQuery, [])"
  by (simp add: idBranches_def)

lemma fetchDetailTry_untitled:
  "fetchDetailTry untitledDoubanNet doubanProps = (Inr noDetail, [DoubanDetailReq (Some 7)])"
proof -
  have c: "cmsSteps untitledDoubanNet doubanProps = (None, [])"
    by (simp add: cmsSteps_def doubanProps_def titleProps_def)
  have f: "fromDouban doubanProps emptyDouban = noDetail"
    by (simp add: fromDouban_def emptyDouban_def orElse_def doubanProps_def titleProps_def
        noDetail_def)
  have i: "idBranches untitledDoubanNet doubanProps = (Inr noDetail, [DoubanDetailReq (Some 7)])"
  proof -
    have ids: "bangumiId doubanProps = None" "doubanId doubanProps = Some 7"
      "isBangumi doubanProps = False"
      by (simp_all add: doubanProps_def titleProps_def)
    have api: "doubanApi untitledDoubanNet (Some 7) = Responded True (Inr emptyDouban)"
      by (simp add: untitledDoubanNet_def)
    show ?thesis
      by (simp add: idBranches_def doubanBranch_def ids api f)
  qed
  show ?thesis by (simp add: fetchDetailTry_def c i)
qed

lemma fetchDetailTry_titled:
  "fetchDetailTry titledDoubanNet doubanProps
     = (Inr (noDetail\<lparr>title := Some jianWangChao\<rparr>), [DoubanDetailReq (Some 7)])"
proof -
  have c: "cmsSteps titledDoubanNet doubanProps = (None, [])"
    by (simp add: cmsSteps_def doubanProps_def titleProps_def)
  have f: "fromDouban doubanProps (emptyDouban\<lparr>db_title := Some jianWangChao\<rparr>)
             = noDetail\<lparr>title := Some jianWangChao\<rparr>"
    by (simp add: fromDouban_def emptyDouban_def orElse_def doubanProps_def titleProps_def
        noDetail_def)
  have i: "idBranches titledDoubanNet doubanProps
             = (Inr (noDetail\<lparr>title := Some jianWangChao\<rparr>), [DoubanDetailReq (Some 7)])"
  proof -
    have ids: "bangumiId doubanProps = None" "doubanId doubanProps = Some 7"
      "isBangumi doubanProps = False"
      by (simp_all add: doubanProps_def titleProps_def)
    have api: "doubanApi titledDoubanNet (Some 7) = Responded True (Inr (emptyDouban\<lparr>db_title := Some jianWangChao\<rparr>))"
      by (simp add: titledDoubanNet_def)
    show ?thesis
      by (simp add: idBranches_def doubanBranch_def ids api f)
  qed
  show ?thesis by (simp add: fetchDetailTry_def c i)
qed

lemma fetchDetailTry_untitledInline:
  "fetchDetailTry errorNet untitledInlineProps
     = (Inr (noDetail\<lparr>title := Some [], intro := Some (ascii ''X''), episodesCount := Some 2\<rparr>), [])"
proof -
  have f: "fromCms untitledInlineProps inlineCms
             = noDetail\<lparr>title := Some [], intro := Some (ascii ''X''), episodesCount := Some 2\<rparr>"
    by (simp add: fromCms_def lengthOf_def untitledInlineProps_def inlineProps_def titleProps_def
        inlineCms_def noDetail_def)
  have "cmsSteps errorNet untitledInlineProps = (Some (fromCms untitledInlineProps inlineCms), [])"
    by (simp add: cmsSteps_def untitledInlineProps_def inlineProps_def titleProps_def)
      (simp add: inlineCms_def ascii_def)
  then show ?thesis by (simp add: fetchDetailTry_def f)
qed

text \<open>
  C8, as stated, fails: no branch checks the title it stores. With an inline synopsis and
  the empty string as the supplied title, the resolution succeeds and the title of the
  record is empty; and when Douban answers with an object that has no title, the
  resolution succeeds and the title of the record is absent.
\<close>

theorem untitled_record_counterexample:
  "fetchDetail errorNet untitledInlineProps idleState
     = (idleState\<lparr>detailData := Some (noDetail\<lparr>title := Some [], intro := Some (ascii ''X''),
                                                episodesCount := Some 2\<rparr>),
                   loading := False, error := None\<rparr>, [])
   \<and> title (noDetail\<lparr>title := Some [], intro := Some (ascii ''X''), episodesCount := Some 2\<rparr>)
       = Some []
   \<and> fetchDetail untitledDoubanNet doubanProps idleState
       = (idleState\<lparr>detailData := Some noDetail, loading := False, error := None\<rparr>,
          [DoubanDetailReq (Some 7)])
   \<and> title noDetail = None"
  by (simp add: fetchDetail_def fetchDetailTry_untitled fetchDetailTry_untitledInline)
    (simp add: noDetail_def)

text \<open>
  C8, amended. The title of a record produced by a successful resolution, through any of
  the five branches, is the value the branch reads for it: the supplied title in the first
  step; the title of the source's detail or, when that is empty or absent, the supplied
  title in the second; the Chinese name or, when that is empty or absent, the original
  name of the Bangumi response; the title of the Douban response; and the title (for a
  movie) or else the name of the TMDB detail response. So the title is populated exactly
  when that value is, and every other field may be absent, as in the record of a Douban
  response that has a title only.
\<close>

theorem resolved_title_source:
  "(\<forall>d. fst (fetchDetailTry net p) = Inr d
      \<longrightarrow> detailData (fst (fetchDetail net p st)) = Some d
          \<and> ((\<exists>cms. cmsData p = Some cms \<and> truthy (desc cms)
                 \<and> title d = Some (DetailPanelProps.title p))
             \<or> (\<exists>sid src b.
                   SourceDetailReq sid src (DetailPanelProps.title p)
                     \<in> set (snd (fetchDetailTry net p))
                   \<and> sourceDetailApi net sid src (DetailPanelProps.title p)
                       = Responded True (Inr b)
                   \<and> title d = orElse (sd_title b) (Some (DetailPanelProps.title p)))
             \<or> (\<exists>i b. BangumiSubjectReq i \<in> set (snd (fetchDetailTry net p))
                   \<and> bangumiApi net i = Responded True (Inr b)
                   \<and> title d = orElse (bgm_name_cn b) (bgm_name b))
             \<or> (\<exists>i b. DoubanDetailReq i \<in> set (snd (fetchDetailTry net p))
                   \<and> doubanApi net i = Responded True (Inr b)
                   \<and> title d = db_title b)
             \<or> (\<exists>i t b. TmdbDetailReq i t \<in> set (snd (fetchDetailTry net p))
                   \<and> tmdbDetailApi net i t = Responded True (Inr (Some b))
                   \<and> title d = (if t = ascii ''movie'' then tmdb_title b else tmdb_name b))))
   \<and> fst (fetchDetailTry titledDoubanNet doubanProps)
       = Inr (noDetail\<lparr>title := Some jianWangChao\<rparr>)"
proof (intro conjI allI impI)
  fix d
  assume r: "fst (fetchDetailTry net p) = Inr d"
  show "detailData (fst (fetchDetail net p st)) = Some d"
    by (simp add: fetchDetail_result(1) [OF r])
  let ?cms = "\<exists>cms. cmsData p = Some cms \<and> truthy (desc cms)
                 \<and> title d = Some (DetailPanelProps.title p)"
  let ?src = "\<exists>sid src b.
                   SourceDetailReq sid src (DetailPanelProps.title p)
                     \<in> set (snd (fetchDetailTry net p))
                   \<and> sourceDetailApi net sid src (DetailPanelProps.title p)
                       = Responded True (Inr b)
                   \<and> title d = orElse (sd_title b) (Some (DetailPanelProps.title p))"
  let ?bgm = "\<exists>i b. BangumiSubjectReq i \<in> set (snd (fetchDetailTry net p))
                   \<and> bangumiApi net i = Responded True (Inr b)
                   \<and> title d = orElse (bgm_name_cn b) (bgm_name b)"
  let ?db = "\<exists>i b. DoubanDetailReq i \<in> set (snd (fetchDetailTry net p))
                   \<and> doubanApi net i = Responded True (Inr b)
                   \<and> title d = db_title b"
  let ?tmdb = "\<exists>i t b. TmdbDetailReq i t \<in> set (snd (fetchDetailTry net p))
                   \<and> tmdbDetailApi net i t = Responded True (Inr (Some b))
                   \<and> title d = (if t = ascii ''movie'' then tmdb_title b else tmdb_name b)"
  show "?cms \<or> ?src \<or> ?bgm \<or> ?db \<or> ?tmdb"
  proof (cases "fst (cmsSteps net p)")
    case (Some d')
    with r have "d' = d" by (simp add: fetchDetailTry_fst)
    with Some have c: "fst (cmsSteps net p) = Some d" by simp
    have s: "set (snd (cmsSteps net p)) \<subseteq> set (snd (fetchDetailTry net p))"
      by (simp add: fetchDetailTry_snd)
    from cmsSteps_title [OF c] s have "?cms \<or> ?src" by blast
    then show ?thesis by blast
  next
    case None
    with r have i: "fst (idBranches net p) = Inr d" by (simp add: fetchDetailTry_fst)
    have s: "set (snd (idBranches net p)) \<subseteq> set (snd (fetchDetailTry net p))"
      using None by (simp add: fetchDetailTry_snd)
    consider (bangumi) "idBranches net p = bangumiBranch net p"
      | (douban) "idBranches net p = doubanBranch net p"
      | (tmdb) "idBranches net p = tmdbBranch net p"
      | (none) "idBranches net p = (Inl msgMissingQuery, [])"
      using idBranches_cases [of net p] by blast
    then show ?thesis
    proof cases
      case bangumi
      with i have "fst (bangumiBranch net p) = Inr d" by simp
      from bangumiBranch_title [OF this] obtain b
        where b: "bangumiApi net (actualBangumiId p) = Responded True (Inr b)"
          "title d = orElse (bgm_name_cn b) (bgm_name b)"
        by blast
      have "BangumiSubjectReq (actualBangumiId p) \<in> set (snd (fetchDetailTry net p))"
        using s bangumi by (simp add: bangumiBranch_snd)
      with b have ?bgm by blast
      then show ?thesis by blast
    next
      case douban
      with i have "fst (doubanBranch net p) = Inr d" by simp
      from doubanBranch_title [OF this] obtain b
        where b: "doubanApi net (doubanId p) = Responded True (Inr b)" "title d = db_title b"
        by blast
      have "DoubanDetailReq (doubanId p) \<in> set (snd (fetchDetailTry net p))"
        using s douban by (simp add: doubanBranch_snd)
      with b have ?db by blast
      then show ?thesis by blast
    next
      case tmdb
      with i have "fst (tmdbBranch net p) = Inr d" by simp
      from tmdbBranch_title [OF this] obtain i t b
        where b: "TmdbDetailReq i t \<in> set (snd (tmdbBranch net p))"
          "tmdbDetailApi net i t = Responded True (Inr (Some b))"
          "title d = (if t = ascii ''movie'' then tmdb_title b else tmdb_name b)"
        by blast
      have "TmdbDetailReq i t \<in> set (snd (fetchDetailTry net p))"
        using s tmdb b(1) by auto
      with b(2,3) have ?tmdb by blast
      then show ?thesis by blast
    next
      case none
      with i show ?thesis by simp
    qed
  qed
next
  show "fst (fetchDetailTry titledDoubanNet doubanProps)
       = Inr (noDetail\<lparr>title := Some jianWangChao\<rparr>)"
    by (simp add: fetchDetailTry_titled)
qed

theorem resolved_title_source_witness:
  "fst (fetchDetailTry titledDoubanNet doubanProps) = Inr (noDetail\<lparr>title := Some jianWangChao\<rparr>)
   \<and> detailData (fst (fetchDetail titledDoubanNet doubanProps idleState))
       = Some (noDetail\<lparr>title := Some jianWangChao\<rparr>)
   \<and> DoubanDetailReq (Some 7) \<in> set (snd (fetchDetailTry titledDoubanNet doubanProps))
   \<and> doubanApi titledDoubanNet (Some 7)
       = Responded True (Inr (emptyDouban\<lparr>db_title := Some jianWangChao\<rparr>))
   \<and> title (noDetail\<lparr>title := Some jianWangChao\<rparr>)
       = db_title (emptyDouban\<lparr>db_title := Some jianWangChao\<rparr>)"
proof -
  have r: "fst (fetchDetailTry titledDoubanNet doubanProps)
             = Inr (noDetail\<lparr>title := Some jianWangChao\<rparr>)"
    by (simp add: fetchDetailTry_titled)
  note res = resolved_title_source
    [of titledDoubanNet doubanProps idleState, THEN conjunct1, rule_format, OF r, THEN conjunct1]
  have q: "DoubanDetailReq (Some 7) \<in> set (snd (fetchDetailTry titledDoubanNet doubanProps))"
    by (simp add: fetchDetailTry_titled)
  have a: "doubanApi titledDoubanNet (Some 7)
             = Responded True (Inr (emptyDouban\<lparr>db_title := Some jianWangChao\<rparr>))"
    by (simp add: titledDoubanNet_def)
  have t: "title (noDetail\<lparr>title := Some jianWangChao\<rparr>)
             = db_title (emptyDouban\<lparr>db_title := Some jianWangChao\<rparr>)"
    by simp
  show ?thesis using r res q a t by (intro conjI)
qed

subsection \<open>The season marker of a title\<close>

lemma small_cases:
  assumes "k < (10::nat)"
  shows "k = 0 \<or> k = 1 \<or> k = 2 \<or> k = 3 \<or> k = 4 \<or> k = 5 \<or> k = 6 \<or> k = 7 \<or> k = 8 \<or> k = 9"
  using assms by arith

lemma numeral_translated:
  assumes "k < 10"
  shows "chineseNumbers [chineseNumerals ! k] = Some (int k + 1)"
  using small_cases [OF assms]
  by (elim disjE) (simp_all add: chineseNumbers_def chineseNumerals_def)

lemma numeral_in_class:
  assumes "k < 10"
  shows "isSeasonNumeral (chineseNumerals ! k)"
proof -
  have "k < length chineseNumerals"
    using assms by (simp add: chineseNumerals_def)
  then have "chineseNumerals ! k \<in> set chineseNumerals"
    by (rule nth_mem)
  then show ?thesis by (simp add: isSeasonNumeral_def)
qed

lemma numerals_not_digits:
  assumes "c \<in> set chineseNumerals"
  shows "\<not> isDigit c"
  using assms by (auto simp: chineseNumerals_def isDigit_def)

lemma digit_unit:
  assumes "m < (10::nat)"
  shows "isDigit (of_nat (48 + m)) \<and> digitValue (of_nat (48 + m)) = m"
  using small_cases [OF assms]
  by (elim disjE) (simp_all add: isDigit_def digitValue_def)

lemma digitsOf_digits: "\<forall>c \<in> set (digitsOf n). isDigit c"
proof (induction n rule: digitsOf.induct)
  case (1 n)
  show ?case
  proof (cases "n < 10")
    case True
    then have "isDigit (of_nat (48 + n))" by (simp only: digit_unit)
    with True show ?thesis
      by (subst digitsOf.simps) (simp del: of_nat_add)
  next
    case False
    have "n mod 10 < 10" by simp
    then have "isDigit (of_nat (48 + n mod 10))" by (simp only: digit_unit)
    with False "1.IH" show ?thesis
      by (subst digitsOf.simps) (simp del: of_nat_add)
  qed
qed

lemma digitsOf_not_empty: "digitsOf n \<noteq> []"
  by (subst digitsOf.simps) simp

lemma digitsOf_value: "decimalValue (digitsOf n) = n"
proof (induction n rule: digitsOf.induct)
  case (1 n)
  show ?case
  proof (cases "n < 10")
    case True
    then have "digitValue (of_nat (48 + n)) = n" by (simp only: digit_unit)
    with True show ?thesis
      by (subst digitsOf.simps) (simp add: decimalValue_def del: of_nat_add)
  next
    case False
    have "n mod 10 < 10" by simp
    then have v: "digitValue (of_nat (48 + n mod 10)) = n mod 10"
      by (simp only: digit_unit)
    from False "1.IH" have "decimalValue (digitsOf (n div 10)) = n div 10" by simp
    then have "decimalValue (digitsOf (n div 10) @ [of_nat (48 + n mod 10)])
                 = 10 * (n div 10) + n mod 10"
      using v by (simp add: decimalValue_def del: of_nat_add)
    with False show ?thesis
      by (subst digitsOf.simps) (simp del: of_nat_add)
  qed
qed

lemma parseInt_digitsOf: "parseInt (digitsOf n) = Some (toDouble n)"
proof -
  have t: "takeWhile isDigit (digitsOf n) = digitsOf n"
    using digitsOf_digits [of n] by simp
  show ?thesis
    by (simp only: parseInt_def t) (simp add: digitsOf_not_empty digitsOf_value)
qed

lemma parseInt_exact:
  assumes "n < 2 ^ 53"
  shows "parseInt (digitsOf n) = Some (Finite (int n))"
  using assms by (simp add: parseInt_digitsOf toDouble_def)

lemma bitLength_example: "bitLength 9007199254740993 = 54"
  by (simp add: bitLength.simps)

lemma parseInt_rounds:
  "parseInt (digitsOf 9007199254740993) = Some (Finite 9007199254740992)"
  by (simp add: parseInt_digitsOf toDouble_def bitLength_example Let_def)

lemma digits_not_in_table:
  assumes "\<forall>c \<in> set g. isDigit c"
  shows "chineseNumbers g = None"
proof -
  let ?table = "zip (map (\<lambda>c. [c]) chineseNumerals) [1, 2, 3, 4, 5, 6, 7, 8, 9, 10 :: int]"
  have "map fst ?table = map (\<lambda>c. [c]) chineseNumerals"
    by (simp add: chineseNumerals_def)
  then have "set (map fst ?table) = set (map (\<lambda>c. [c]) chineseNumerals)"
    by (rule arg_cong)
  then have k: "fst ` set ?table = (\<lambda>c. [c]) ` set chineseNumerals"
    by (simp only: set_map)
  have "g \<notin> (\<lambda>c. [c]) ` set chineseNumerals"
    using assms numerals_not_digits by auto
  with k have "g \<notin> fst ` set ?table"
    by simp
  then have "map_of ?table g = None"
    by (simp only: map_of_eq_None_iff simp_thms)
  then show ?thesis
    by (simp only: chineseNumbers_def)
qed

lemma seasonOfGroup_numeral:
  assumes "k < 10"
  shows "seasonOfGroup [chineseNumerals ! k] = Some (Finite (int k + 1))"
  by (simp add: seasonOfGroup_def orElseJs_def numeral_translated [OF assms])

lemma seasonOfGroup_digitsOf:
  assumes "0 < n" and "n < 2 ^ 53"
  shows "seasonOfGroup (digitsOf n) = Some (Finite (int n))"
proof -
  have "chineseNumbers (digitsOf n) = None"
    using digitsOf_digits by (rule digits_not_in_table)
  with assms show ?thesis
    by (simp add: seasonOfGroup_def orElseJs_def parseInt_exact)
qed

lemma seasonOfGroup_parsed:
  assumes "chineseNumbers g = None"
  shows "seasonOfGroup g = (if truthyJs (parseInt g) then parseInt g else None)"
  using assms by (simp add: seasonOfGroup_def orElseJs_def)

lemma closing_not_in_class:
  assumes "e = 0x5B63 \<or> e = 0x90E8"
  shows "\<not> isSeasonNumeral e"
  using assms by (auto simp: isSeasonNumeral_def chineseNumerals_def isDigit_def)

lemma chineseSeasonPattern_match:
  assumes "g \<noteq> []" and "\<forall>c \<in> set g. isSeasonNumeral c" and "e = 0x5B63 \<or> e = 0x90E8"
  shows "chineseSeasonPattern (0x7B2C # g @ e # post) = Some (g, post)"
proof -
  have n: "\<not> isSeasonNumeral e" using assms(3) by (rule closing_not_in_class)
  have t: "takeWhile isSeasonNumeral (g @ e # post) = g"
    using assms(2) n by simp
  have d: "dropWhile isSeasonNumeral (g @ e # post) = e # post"
    using assms(2) n by simp
  show ?thesis
    using assms(1,3) by (simp add: chineseSeasonPattern_def t d)
qed

lemma chineseSeasonPattern_other:
  assumes "c \<noteq> 0x7B2C"
  shows "chineseSeasonPattern (c # s) = None"
  using assms by (simp add: chineseSeasonPattern_def)

lemma matchFirst_after_prefix:
  assumes "0x7B2C \<notin> set pre" and "chineseSeasonPattern (c # s) = Some (g, post)"
  shows "matchFirst chineseSeasonPattern (pre @ c # s) = Some (pre, g, post)"
  using assms by (induction pre) (simp_all add: chineseSeasonPattern_other)

lemma stripSeason_chinese:
  assumes "0x7B2C \<notin> set pre" and "g \<noteq> []" and "\<forall>c \<in> set g. isSeasonNumeral c"
    and "e = 0x5B63 \<or> e = 0x90E8" and "\<not> truthyNum seasonNo"
  shows "stripSeason (pre @ [0x7B2C] @ g @ [e] @ post) seasonNo
           = (trim (pre @ post), seasonOfGroup g)"
proof -
  have "chineseSeasonPattern (0x7B2C # g @ e # post) = Some (g, post)"
    using assms(2,3,4) by (rule chineseSeasonPattern_match)
  with assms(1)
  have "matchFirst chineseSeasonPattern (pre @ 0x7B2C # g @ e # post) = Some (pre, g, post)"
    by (rule matchFirst_after_prefix)
  then have "firstPattern seasonPatterns (pre @ [0x7B2C] @ g @ [e] @ post) = Some (pre, g, post)"
    by (simp add: seasonPatterns_def)
  with assms(5) show ?thesis
    by (simp add: stripSeason_def)
qed

text \<open>
  C6. For the title \<^verbatim>\<open>U+5251 U+738B U+671D U+7B2C U+4E8C U+5B63\<close> and no season
  number supplied, the search title is the first three characters and the season number
  is 2, in \<^verbatim>\<open>stripSeason\<close> and so in the TMDB branch. In general, when a pattern
  matches and no season number is supplied, the season number is read from the group: a
  group that is one of the ten numerals is translated to 1 to 10, and any other group is
  parsed by \<^verbatim>\<open>parseInt\<close>, which reads the decimal digits of a number below
  \<open>2^53\<close> as that number (above, it gives the nearest double: the digits of
  \<open>2^53 + 1\<close> are read as \<open>2^53\<close>). So a title with the marker of the first
  pattern, around a numeral or around the digits of a positive number below \<open>2^53\<close>,
  gives the title without the marker, trimmed, and that number.
\<close>

theorem season_marker_extraction:
  "stripSeason jianWangChaoSeason2 None = (jianWangChao, Some (Finite 2))
   \<and> (\<forall>p :: DetailPanelProps. DetailPanelProps.title p = jianWangChaoSeason2 \<and> seasonNumber p = None
        \<longrightarrow> searchTitle p = jianWangChao \<and> extractedSeasonNumber p = Some (Finite 2))
   \<and> (\<forall>t seasonNo pre g post.
        firstPattern seasonPatterns t = Some (pre, g, post) \<and> \<not> truthyNum seasonNo
        \<longrightarrow> stripSeason t seasonNo = (trim (pre @ post), seasonOfGroup g))
   \<and> (\<forall>k < 10. seasonOfGroup [chineseNumerals ! k] = Some (Finite (int k + 1)))
   \<and> (\<forall>g. chineseNumbers g = None
        \<longrightarrow> seasonOfGroup g = (if truthyJs (parseInt g) then parseInt g else None))
   \<and> (\<forall>n < 2 ^ 53. parseInt (digitsOf n) = Some (Finite (int n)))
   \<and> parseInt (digitsOf 9007199254740993) = Some (Finite 9007199254740992)
   \<and> (\<forall>k pre post e.
        k < 10 \<and> 0x7B2C \<notin> set pre \<and> (e = 0x5B63 \<or> e = 0x90E8)
        \<longrightarrow> stripSeason (pre @ [0x7B2C] @ [chineseNumerals ! k] @ [e] @ post) None
            = (trim (pre @ post), Some (Finite (int k + 1))))
   \<and> (\<forall>n pre post e.
        0 < n \<and> n < 2 ^ 53 \<and> 0x7B2C \<notin> set pre \<and> (e = 0x5B63 \<or> e = 0x90E8)
        \<longrightarrow> stripSeason (pre @ [0x7B2C] @ digitsOf n @ [e] @ post) None
            = (trim (pre @ post), Some (Finite (int n))))"
proof (intro conjI allI impI)
  show "stripSeason jianWangChaoSeason2 None = (jianWangChao, Some (Finite 2))"
    by (rule stripSeason_example)
next
  fix p :: DetailPanelProps
  assume "DetailPanelProps.title p = jianWangChaoSeason2 \<and> seasonNumber p = None"
  then show "searchTitle p = jianWangChao" and "extractedSeasonNumber p = Some (Finite 2)"
    by (simp_all add: searchTitle_def extractedSeasonNumber_def stripSeason_example)
next
  fix t seasonNo pre g post
  assume "firstPattern seasonPatterns t = Some (pre, g, post) \<and> \<not> truthyNum seasonNo"
  then show "stripSeason t seasonNo = (trim (pre @ post), seasonOfGroup g)"
    by (simp add: stripSeason_def)
next
  fix k :: nat
  assume "k < 10"
  then show "seasonOfGroup [chineseNumerals ! k] = Some (Finite (int k + 1))"
    by (rule seasonOfGroup_numeral)
next
  fix g
  assume "chineseNumbers g = None"
  then show "seasonOfGroup g = (if truthyJs (parseInt g) then parseInt g else None)"
    by (rule seasonOfGroup_parsed)
next
  fix n :: nat
  assume "n < 2 ^ 53"
  then show "parseInt (digitsOf n) = Some (Finite (int n))"
    by (rule parseInt_exact)
next
  show "parseInt (digitsOf 9007199254740993) = Some (Finite 9007199254740992)"
    by (rule parseInt_rounds)
next
  fix k :: nat and pre post :: jstring and e :: code_unit
  assume a: "k < 10 \<and> 0x7B2C \<notin> set pre \<and> (e = 0x5B63 \<or> e = 0x90E8)"
  then have "stripSeason (pre @ [0x7B2C] @ [chineseNumerals ! k] @ [e] @ post) None
               = (trim (pre @ post), seasonOfGroup [chineseNumerals ! k])"
    by (intro stripSeason_chinese) (simp_all add: numeral_in_class)
  with a show "stripSeason (pre @ [0x7B2C] @ [chineseNumerals ! k] @ [e] @ post) None
            = (trim (pre @ post), Some (Finite (int k + 1)))"
    by (simp add: seasonOfGroup_numeral)
next
  fix n :: nat and pre post :: jstring and e :: code_unit
  assume a: "0 < n \<and> n < 2 ^ 53 \<and> 0x7B2C \<notin> set pre \<and> (e = 0x5B63 \<or> e = 0x90E8)"
  have "\<forall>c \<in> set (digitsOf n). isSeasonNumeral c"
    using digitsOf_digits [of n] by (simp add: isSeasonNumeral_def)
  with a have "stripSeason (pre @ [0x7B2C] @ digitsOf n @ [e] @ post) None
               = (trim (pre @ post), seasonOfGroup (digitsOf n))"
    by (intro stripSeason_chinese) (simp_all add: digitsOf_not_empty)
  with a show "stripSeason (pre @ [0x7B2C] @ digitsOf n @ [e] @ post) None
            = (trim (pre @ post), Some (Finite (int n)))"
    by (simp add: seasonOfGroup_digitsOf)
qed

theorem season_marker_extraction_witness:
  "(1::nat) < 10 \<and> 0x7B2C \<notin> set jianWangChao
   \<and> jianWangChao @ [0x7B2C] @ [chineseNumerals ! 1] @ [0x5B63] @ [] = jianWangChaoSeason2
   \<and> stripSeason jianWangChaoSeason2 None = (trim (jianWangChao @ []), Some (Finite 2))
   \<and> trim (jianWangChao @ []) = jianWangChao
   \<and> (0::nat) < 12 \<and> (12::nat) < 2 ^ 53 \<and> digitsOf 12 = [0x31, 0x32]
   \<and> stripSeason ([0x7B2C] @ digitsOf 12 @ [0x90E8] @ jianWangChao) None
       = (trim jianWangChao, Some (Finite 12))"
proof -
  have n: "digitsOf 12 = [0x31, 0x32]"
    by (simp add: digitsOf.simps)
  have h: "(1::nat) < 10 \<and> 0x7B2C \<notin> set jianWangChao \<and> ((0x5B63::code_unit) = 0x5B63 \<or> (0x5B63::code_unit) = 0x90E8)"
    by (simp add: jianWangChao_def)
  have e: "jianWangChao @ [0x7B2C] @ [chineseNumerals ! 1] @ [0x5B63] @ [] = jianWangChaoSeason2"
    by (simp add: jianWangChao_def jianWangChaoSeason2_def chineseNumerals_def)
  have t: "trim (jianWangChao @ []) = jianWangChao"
    by (simp add: trim_def jianWangChao_def isSpace_def)
  note numeral = season_marker_extraction
    [THEN conjunct2, THEN conjunct2, THEN conjunct2, THEN conjunct2, THEN conjunct2,
      THEN conjunct2, THEN conjunct2, THEN conjunct1, rule_format, OF h, of "[]"]
  have g: "(0::nat) < 12 \<and> (12::nat) < 2 ^ 53 \<and> 0x7B2C \<notin> set ([]::jstring)
      \<and> ((0x90E8::code_unit) = 0x5B63 \<or> (0x90E8::code_unit) = 0x90E8)"
    by simp
  note digits = season_marker_extraction
    [THEN conjunct2, THEN conjunct2, THEN conjunct2, THEN conjunct2, THEN conjunct2,
      THEN conjunct2, THEN conjunct2, THEN conjunct2, rule_format, OF g, of jianWangChao]
  have s: "stripSeason jianWangChaoSeason2 None = (trim (jianWangChao @ []), Some (Finite 2))"
    using numeral by (simp only: e) simp
  have d: "stripSeason ([0x7B2C] @ digitsOf 12 @ [0x90E8] @ jianWangChao) None
       = (trim jianWangChao, Some (Finite 12))"
    using digits by simp
  show ?thesis
    using h e s t n d by simp
qed

end
